theory Spec2Isabelle
  imports Main "HOL-Library.Word" "HOL-Library.AList"
begin

section \<open>Engine values: the Fleece property tree\<close>

text \<open>
  \<^verbatim>\<open>CBLiteC.c\<close> is a thin layer over Couchbase Lite C and its value library Fleece.
  Neither is part of the repository, so the values a document holds are modelled here as
  a datatype with one constructor per kind of stored value, and the accessors of Fleece
  that the wrapper calls as functions over it.

  Machine integers are 64-bit words: \<^verbatim>\<open>int64_t\<close> and \<^verbatim>\<open>uint64_t\<close> share the bit pattern
  and differ in how it is read (\<open>sint\<close>, \<open>unat\<close>). A \<^verbatim>\<open>double\<close> is its IEEE-754 bit
  pattern, so that \<^verbatim>\<open>0.0\<close> is the all-zero word; no arithmetic on doubles is modelled.
  A \<^verbatim>\<open>size_t\<close> is a \<open>nat\<close>: the wrapper only compares sizes and subtracts one from a
  size it has just tested to be nonzero, so nothing wraps.
\<close>

type_synonym i64 = "64 word"
type_synonym u64 = "64 word"
type_synonym byte = "8 word"

datatype f64 = F64 "64 word"

definition f64_zero :: f64 where
  "f64_zero = F64 0"

datatype FLValueType =
  kFLUndefined | kFLNull | kFLBoolean | kFLNumber | kFLString | kFLData | kFLArray | kFLDict

text \<open>
  A blob as the reader sees it: its content type (an \<^verbatim>\<open>FLString\<close>, whose buffer may be
  null) and what \<^verbatim>\<open>CBLBlob_Content\<close> returns for it (\<open>None\<close> is the null slice of a
  failed fetch).
\<close>

record CBLBlob =
  blob_content_type :: "string option"
  blob_content :: "byte list option"

datatype flvalue =
    FLNullV
  | FLBoolV bool
  | FLIntV i64
  | FLUIntV u64
  | FLDoubleV f64
  | FLStringV string
  | FLDataV "byte list"
  | FLArrayV "flvalue list"
  | FLDictV "(string \<times> flvalue) list"
  | FLBlobV CBLBlob

text \<open>
  A slice (\<^verbatim>\<open>FLSlice\<close>, \<^verbatim>\<open>FLString\<close>): a buffer pointer, null or not, and a size (the field \<^verbatim>\<open>size\<close>, here \<open>size_s\<close>).
\<close>

record 'a FLSlice =
  buf :: "'a list option"
  size_s :: nat

type_synonym FLString = "char FLSlice"

text \<open>
  A dictionary is an association list read with \<open>map_of\<close>. \<^verbatim>\<open>FLDict\<close> and \<^verbatim>\<open>FLValue\<close>
  are pointers: \<open>None\<close> is \<^verbatim>\<open>NULL\<close>.
\<close>

type_synonym fldict = "(string \<times> flvalue) list"

text \<open>
  The conversions between integers and doubles are the engine's (and the C compiler's);
  they are parameters of the model.
\<close>

record fl_conv =
  conv_i64_f64 :: "i64 \<Rightarrow> f64"
  conv_u64_f64 :: "u64 \<Rightarrow> f64"
  conv_f64_i64 :: "f64 \<Rightarrow> i64"
  conv_f64_u64 :: "f64 \<Rightarrow> u64"
  conv_f64_bool :: "f64 \<Rightarrow> bool"

text \<open>
  Modelled from the spec: the engine's typed value primitives (\<^verbatim>\<open>Fleece.h\<close>, missing from
  the repository), "a property container abstraction supporting set/get typed scalar
  (signed/unsigned integer, floating point, UTF-8 string, boolean), nested dictionary,
  nested array, and binary blob values, with a type tag queryable per stored value".
  An accessor applied to \<^verbatim>\<open>NULL\<close> or to a value of another kind returns the zero of its
  result type.
\<close>

fun FLValue_GetType :: "flvalue option \<Rightarrow> FLValueType" where
  "FLValue_GetType None = kFLUndefined"
| "FLValue_GetType (Some FLNullV) = kFLNull"
| "FLValue_GetType (Some (FLBoolV b)) = kFLBoolean"
| "FLValue_GetType (Some (FLIntV n)) = kFLNumber"
| "FLValue_GetType (Some (FLUIntV n)) = kFLNumber"
| "FLValue_GetType (Some (FLDoubleV x)) = kFLNumber"
| "FLValue_GetType (Some (FLStringV s)) = kFLString"
| "FLValue_GetType (Some (FLDataV bs)) = kFLData"
| "FLValue_GetType (Some (FLArrayV vs)) = kFLArray"
| "FLValue_GetType (Some (FLDictV kvs)) = kFLDict"
| "FLValue_GetType (Some (FLBlobV b)) = kFLDict"

fun FLValue_AsInt :: "fl_conv \<Rightarrow> flvalue option \<Rightarrow> i64" where
  "FLValue_AsInt cv (Some (FLIntV n)) = n"
| "FLValue_AsInt cv (Some (FLUIntV n)) = n"
| "FLValue_AsInt cv (Some (FLDoubleV x)) = conv_f64_i64 cv x"
| "FLValue_AsInt cv (Some (FLBoolV b)) = (if b then 1 else 0)"
| "FLValue_AsInt cv _ = 0"

fun FLValue_AsUnsigned :: "fl_conv \<Rightarrow> flvalue option \<Rightarrow> u64" where
  "FLValue_AsUnsigned cv (Some (FLIntV n)) = n"
| "FLValue_AsUnsigned cv (Some (FLUIntV n)) = n"
| "FLValue_AsUnsigned cv (Some (FLDoubleV x)) = conv_f64_u64 cv x"
| "FLValue_AsUnsigned cv (Some (FLBoolV b)) = (if b then 1 else 0)"
| "FLValue_AsUnsigned cv _ = 0"

fun FLValue_AsDouble :: "fl_conv \<Rightarrow> flvalue option \<Rightarrow> f64" where
  "FLValue_AsDouble cv (Some (FLDoubleV x)) = x"
| "FLValue_AsDouble cv (Some (FLIntV n)) = conv_i64_f64 cv n"
| "FLValue_AsDouble cv (Some (FLUIntV n)) = conv_u64_f64 cv n"
| "FLValue_AsDouble cv (Some (FLBoolV b)) = conv_i64_f64 cv (if b then 1 else 0)"
| "FLValue_AsDouble cv _ = f64_zero"

fun FLValue_AsBool :: "fl_conv \<Rightarrow> flvalue option \<Rightarrow> bool" where
  "FLValue_AsBool cv None = False"
| "FLValue_AsBool cv (Some FLNullV) = False"
| "FLValue_AsBool cv (Some (FLBoolV b)) = b"
| "FLValue_AsBool cv (Some (FLIntV n)) = (n \<noteq> 0)"
| "FLValue_AsBool cv (Some (FLUIntV n)) = (n \<noteq> 0)"
| "FLValue_AsBool cv (Some (FLDoubleV x)) = conv_f64_bool cv x"
| "FLValue_AsBool cv _ = True"

fun FLValue_AsString :: "flvalue option \<Rightarrow> FLString" where
  "FLValue_AsString (Some (FLStringV s)) = \<lparr>buf = Some s, size_s = length s\<rparr>"
| "FLValue_AsString _ = \<lparr>buf = None, size_s = 0\<rparr>"

fun FLValue_AsArray :: "flvalue option \<Rightarrow> flvalue list option" where
  "FLValue_AsArray (Some (FLArrayV vs)) = Some vs"
| "FLValue_AsArray _ = None"

text \<open>
  \<^verbatim>\<open>FLArray_Count\<close> returns a \<^verbatim>\<open>uint32_t\<close> and \<^verbatim>\<open>FLArray_Get\<close> takes one; both accept
  a null array.
\<close>

fun FLArray_Count :: "flvalue list option \<Rightarrow> 32 word" where
  "FLArray_Count None = 0"
| "FLArray_Count (Some vs) = word_of_nat (length vs)"

fun FLArray_Get :: "flvalue list option \<Rightarrow> 32 word \<Rightarrow> flvalue option" where
  "FLArray_Get None i = None"
| "FLArray_Get (Some vs) i = (if unat i < length vs then Some (vs ! unat i) else None)"

fun FLDict_Get :: "fldict option \<Rightarrow> FLString \<Rightarrow> flvalue option" where
  "FLDict_Get None key = None"
| "FLDict_Get (Some kvs) key = (case buf key of None \<Rightarrow> None | Some k \<Rightarrow> map_of kvs k)"

section \<open>The wrapper's helpers and structs\<close>

definition fl_is_number :: "flvalue option \<Rightarrow> bool" where
  "fl_is_number v = (v \<noteq> None \<and> FLValue_GetType v = kFLNumber)"

definition fl_is_string :: "flvalue option \<Rightarrow> bool" where
  "fl_is_string v = (v \<noteq> None \<and> FLValue_GetType v = kFLString)"

text \<open>
  A C string is a \<open>string\<close> (its bytes before the terminator); a \<^verbatim>\<open>const char*\<close> is a
  \<open>string option\<close>.
\<close>

definition fl_from_c :: "string option \<Rightarrow> FLString" where
  "fl_from_c s = \<lparr>buf = s, size_s = (case s of None \<Rightarrow> 0 | Some cs \<Rightarrow> length cs)\<rparr>"

type_synonym addr = nat

text \<open>
  \<^verbatim>\<open>struct CBLU_DocR { const CBLU_Core* core; const CBLDocument* doc; FLDict props; }\<close>.
  The document is an engine object, named by a number.
\<close>

record CBLU_DocR =
  docr_core :: "addr option"
  docr_doc :: "nat option"
  docr_props :: "fldict option"

section \<open>Reading scalars\<close>

text \<open>
  An output parameter \<^verbatim>\<open>T* out\<close> is a \<open>T option\<close>: \<open>None\<close> for a null pointer,
  \<open>Some x\<close> for a location that holds \<open>x\<close>. A getter returns its C result together with
  the location as the call leaves it.
\<close>

definition cblu_docr_has :: "CBLU_DocR option \<Rightarrow> string option \<Rightarrow> bool" where
  "cblu_docr_has d key =
     (case d of None \<Rightarrow> False | Some dr \<Rightarrow>
        if key = None then False
        else let v = FLDict_Get (docr_props dr) (fl_from_c key) in v \<noteq> None)"

definition cblu_docr_get_i64 ::
  "fl_conv \<Rightarrow> CBLU_DocR option \<Rightarrow> string option \<Rightarrow> i64 option \<Rightarrow> bool \<times> i64 option" where
  "cblu_docr_get_i64 cv d key out =
     (case d of None \<Rightarrow> (False, out) | Some dr \<Rightarrow>
        if key = None \<or> out = None then (False, out)
        else let v = FLDict_Get (docr_props dr) (fl_from_c key) in
          if \<not> fl_is_number v then (False, out)
          else (True, Some (FLValue_AsInt cv v)))"

definition cblu_docr_get_u64 ::
  "fl_conv \<Rightarrow> CBLU_DocR option \<Rightarrow> string option \<Rightarrow> u64 option \<Rightarrow> bool \<times> u64 option" where
  "cblu_docr_get_u64 cv d key out =
     (case d of None \<Rightarrow> (False, out) | Some dr \<Rightarrow>
        if key = None \<or> out = None then (False, out)
        else let v = FLDict_Get (docr_props dr) (fl_from_c key) in
          if \<not> fl_is_number v then (False, out)
          else (True, Some (FLValue_AsUnsigned cv v)))"

definition cblu_docr_get_f64 ::
  "fl_conv \<Rightarrow> CBLU_DocR option \<Rightarrow> string option \<Rightarrow> f64 option \<Rightarrow> bool \<times> f64 option" where
  "cblu_docr_get_f64 cv d key out =
     (case d of None \<Rightarrow> (False, out) | Some dr \<Rightarrow>
        if key = None \<or> out = None then (False, out)
        else let v = FLDict_Get (docr_props dr) (fl_from_c key) in
          if \<not> fl_is_number v then (False, out)
          else (True, Some (FLValue_AsDouble cv v)))"

definition cblu_docr_get_bool ::
  "fl_conv \<Rightarrow> CBLU_DocR option \<Rightarrow> string option \<Rightarrow> bool option \<Rightarrow> bool \<times> bool option" where
  "cblu_docr_get_bool cv d key out =
     (case d of None \<Rightarrow> (False, out) | Some dr \<Rightarrow>
        if key = None \<or> out = None then (False, out)
        else let v = FLDict_Get (docr_props dr) (fl_from_c key) in
          if v = None then (False, out)
          else if FLValue_GetType v = kFLBoolean \<or> FLValue_GetType v = kFLNumber
            then (True, Some (FLValue_AsBool cv v))
          else (False, out))"

section \<open>Reading into caller-supplied buffers\<close>

text \<open>
  A destination buffer \<^verbatim>\<open>T* dst\<close> is the memory from \<^verbatim>\<open>dst\<close> on, a function from the
  element offset to the element there; \<open>None\<close> is the null pointer. The capacity the
  caller passes says how much of it the callee may write. \<^verbatim>\<open>memcpy(dst, src, n)\<close>
  overwrites the offsets below \<open>n\<close>; every call in the wrapper has \<open>n\<close> at most the
  length of \<open>src\<close>.
\<close>

type_synonym 'a mem = "nat \<Rightarrow> 'a"

definition memcpy :: "'a mem \<Rightarrow> 'a list \<Rightarrow> nat \<Rightarrow> 'a mem" where
  "memcpy dst src n = (\<lambda>i. if i < n then src ! i else dst i)"

definition cblu_docr_get_str ::
  "CBLU_DocR option \<Rightarrow> string option \<Rightarrow> char mem option \<Rightarrow> nat \<Rightarrow> nat \<times> char mem option" where
  "cblu_docr_get_str d key dst dst_size =
     (case d of None \<Rightarrow> (0, dst) | Some dr \<Rightarrow>
      (case dst of None \<Rightarrow> (0, dst) | Some m \<Rightarrow>
        if key = None \<or> dst_size = 0 then (0, dst)
        else let v = FLDict_Get (docr_props dr) (fl_from_c key) in
          if \<not> fl_is_string v then (0, Some (m(0 := CHR 0x00)))
          else let s = FLValue_AsString v;
                   n = (if buf s \<noteq> None \<and> size_s s < dst_size - 1 then size_s s
                        else dst_size - 1)
               in (case buf s of
                     Some b \<Rightarrow> (n, Some ((memcpy m b n)(n := CHR 0x00)))
                   | None \<Rightarrow> (n, Some (m(0 := CHR 0x00))))))"

text \<open>
  The copy loops of the array getters, \<^verbatim>\<open>for (size_t i = 0; i < n; i++)\<close>. The index is
  cast to \<^verbatim>\<open>uint32_t\<close> for \<^verbatim>\<open>FLArray_Get\<close>.
\<close>

function f64_array_loop ::
  "fl_conv \<Rightarrow> flvalue list option \<Rightarrow> f64 mem \<Rightarrow> nat \<Rightarrow> nat \<Rightarrow> f64 mem" where
  "f64_array_loop cv a out i n =
     (if i < n then
        let item = FLArray_Get a (word_of_nat i) in
        f64_array_loop cv a
          (out(i := (if fl_is_number item then FLValue_AsDouble cv item else f64_zero)))
          (Suc i) n
      else out)"
  by pat_completeness auto
termination
  by (relation "measure (\<lambda>(cv, a, out, i, n). n - i)") auto

declare f64_array_loop.simps [simp del]

function i64_array_loop ::
  "fl_conv \<Rightarrow> flvalue list option \<Rightarrow> i64 mem \<Rightarrow> nat \<Rightarrow> nat \<Rightarrow> i64 mem" where
  "i64_array_loop cv a out i n =
     (if i < n then
        let item = FLArray_Get a (word_of_nat i) in
        i64_array_loop cv a
          (out(i := (if fl_is_number item then FLValue_AsInt cv item else 0)))
          (Suc i) n
      else out)"
  by pat_completeness auto
termination
  by (relation "measure (\<lambda>(cv, a, out, i, n). n - i)") auto

declare i64_array_loop.simps [simp del]

definition cblu_docr_get_f64_array ::
  "fl_conv \<Rightarrow> CBLU_DocR option \<Rightarrow> string option \<Rightarrow> f64 mem option \<Rightarrow> nat
     \<Rightarrow> nat \<times> f64 mem option" where
  "cblu_docr_get_f64_array cv d key out maxn =
     (case d of None \<Rightarrow> (0, out) | Some dr \<Rightarrow>
      (case out of None \<Rightarrow> (0, out) | Some m \<Rightarrow>
        if key = None \<or> maxn = 0 then (0, out)
        else let v = FLDict_Get (docr_props dr) (fl_from_c key) in
          if FLValue_GetType v \<noteq> kFLArray then (0, out)
          else let a = FLValue_AsArray v;
                   n = unat (FLArray_Count a);
                   n = (if n > maxn then maxn else n)
               in (n, Some (f64_array_loop cv a m 0 n))))"

definition cblu_docr_get_i64_array ::
  "fl_conv \<Rightarrow> CBLU_DocR option \<Rightarrow> string option \<Rightarrow> i64 mem option \<Rightarrow> nat
     \<Rightarrow> nat \<times> i64 mem option" where
  "cblu_docr_get_i64_array cv d key out maxn =
     (case d of None \<Rightarrow> (0, out) | Some dr \<Rightarrow>
      (case out of None \<Rightarrow> (0, out) | Some m \<Rightarrow>
        if key = None \<or> maxn = 0 then (0, out)
        else let v = FLDict_Get (docr_props dr) (fl_from_c key) in
          if FLValue_GetType v \<noteq> kFLArray then (0, out)
          else let a = FLValue_AsArray v;
                   n = unat (FLArray_Count a);
                   n = (if n > maxn then maxn else n)
               in (n, Some (i64_array_loop cv a m 0 n))))"

subsection \<open>Blobs\<close>

text \<open>
  \<^verbatim>\<open>cblu_docr_get_blob\<close> looks the blob up through whichever of \<^verbatim>\<open>FLValue_AsBlob\<close> and
  \<^verbatim>\<open>FLValue_GetBlob\<close> the preprocessor finds defined as a macro, and through neither
  when neither is (\<^verbatim>\<open>#else blob = NULL;\<close>). The accessor the build selects is a
  parameter: \<open>None\<close> is the \<^verbatim>\<open>#else\<close> branch, which is the one compiled when no header
  defines either name as a macro. Nothing in the repository does.
\<close>

type_synonym blob_accessor = "(flvalue option \<Rightarrow> CBLBlob option) option"

text \<open>
  Modelled from the spec: the engine's blob accessor (\<^verbatim>\<open>CBLBlob.h\<close>, missing from the
  repository). It yields the blob of a blob-valued field and \<^verbatim>\<open>NULL\<close> for every other
  value; "blob content must be separately fetchable as a byte buffer given its
  reference".
\<close>

fun FLValue_GetBlob :: "flvalue option \<Rightarrow> CBLBlob option" where
  "FLValue_GetBlob (Some (FLBlobV b)) = Some b"
| "FLValue_GetBlob _ = None"

definition CBLBlob_ContentType :: "CBLBlob \<Rightarrow> FLString" where
  "CBLBlob_ContentType b =
     \<lparr>buf = blob_content_type b,
      size_s = (case blob_content_type b of None \<Rightarrow> 0 | Some s \<Rightarrow> length s)\<rparr>"

definition CBLBlob_Content :: "CBLBlob \<Rightarrow> byte FLSlice" where
  "CBLBlob_Content b =
     \<lparr>buf = blob_content b,
      size_s = (case blob_content b of None \<Rightarrow> 0 | Some bs \<Rightarrow> length bs)\<rparr>"

definition cblu_docr_get_blob ::
  "blob_accessor \<Rightarrow> CBLU_DocR option \<Rightarrow> string option \<Rightarrow> byte mem option \<Rightarrow> nat
     \<Rightarrow> char mem option \<Rightarrow> nat \<Rightarrow> nat \<times> byte mem option \<times> char mem option" where
  "cblu_docr_get_blob acc d key dst dstSize contentTypeDst ctDstSize =
     (case d of None \<Rightarrow> (0, dst, contentTypeDst) | Some dr \<Rightarrow>
      (case dst of None \<Rightarrow> (0, dst, contentTypeDst) | Some m \<Rightarrow>
        if key = None \<or> dstSize = 0 then (0, dst, contentTypeDst)
        else
          let v = FLDict_Get (docr_props dr) (fl_from_c key);
              blob = (if v \<noteq> None
                      then (case acc of Some accessor \<Rightarrow> accessor v | None \<Rightarrow> None)
                      else None)
          in (case blob of None \<Rightarrow> (0, dst, contentTypeDst) | Some b \<Rightarrow>
            let ctd = (case contentTypeDst of
                         None \<Rightarrow> None
                       | Some cm \<Rightarrow>
                           if ctDstSize > 0 then
                             let ct = CBLBlob_ContentType b;
                                 n = (if buf ct \<noteq> None \<and> size_s ct < ctDstSize - 1
                                      then size_s ct else ctDstSize - 1)
                             in (case buf ct of
                                   Some cb \<Rightarrow> Some ((memcpy cm cb n)(n := CHR 0x00))
                                 | None \<Rightarrow> Some (cm(0 := CHR 0x00)))
                           else Some cm);
                sr = CBLBlob_Content b
            in (case buf sr of None \<Rightarrow> (0, dst, ctd) | Some sb \<Rightarrow>
                 if size_s sr = 0 then (0, dst, ctd)
                 else let nCopy = (if size_s sr < dstSize then size_s sr else dstSize)
                      in (nCopy, Some (memcpy m sb nCopy), ctd)))))"

section \<open>Handles, the heap and the engine\<close>

text \<open>
  The wrapper's handles are pointers to structs it allocates with \<^verbatim>\<open>calloc\<close> and
  releases with \<^verbatim>\<open>free\<close>. A pointer is an \<open>addr option\<close>, and the heap maps the
  addresses of live objects to their content. The engine's objects (databases,
  collections, documents) are named by numbers; a pointer to one is a \<open>nat option\<close>.
\<close>

record CBLU_Core =
  core_db :: "nat option"
  core_coll :: "nat option"

record CBLU_Db =
  db_core :: CBLU_Core

record CBLU_Session =
  sess_core :: CBLU_Core
  txn_active :: bool

text \<open>
  \<^verbatim>\<open>struct CBLU_DocW { const CBLU_Core* core; CBLDocument* doc; FLMutableDict props; }\<close>.
  \<^verbatim>\<open>core\<close> points into the session (\<^verbatim>\<open>&s->core\<close>, the session's first member), so it is
  the session's address.
\<close>

record CBLU_DocW =
  docw_core :: "addr option"
  docw_doc :: "nat option"
  docw_props :: "nat option"

datatype obj =
    DbObj CBLU_Db
  | SessionObj CBLU_Session
  | DocWObj CBLU_DocW
  | DocRObj CBLU_DocR

text \<open>
  The calls into the engine that the wrapper makes on databases, collections,
  transactions and documents, with their arguments.
\<close>

datatype engine_call =
    E_Database_Open "string option" "string option"
  | E_Database_DefaultCollection "nat option"
  | E_Database_Close "nat option"
  | E_Database_Release "nat option"
  | E_Collection_Release "nat option"
  | E_Database_BeginTransaction "nat option"
  | E_Database_EndTransaction "nat option" bool
  | E_Collection_SaveDocument "nat option" "nat option"
  | E_Collection_GetDocument "nat option" "string option"
  | E_Document_Release "nat option"
  | E_Blob_CreateWithData "string option"

text \<open>
  A mutable Fleece container holds immediate values and references to other mutable
  containers.
\<close>

datatype mvalue = Imm flvalue | Ref nat

datatype mcontainer = MDict "(string \<times> mvalue) list" | MArray "mvalue list"

text \<open>
  The state a call runs in: the heap and its allocator, the engine's state, the calls
  made into the engine so far, and what was printed to \<^verbatim>\<open>stderr\<close>. \<open>succeeds\<close> says
  which engine calls succeed; the model is proved for every such choice.
\<close>

record world =
  heap :: "addr \<rightharpoonup> obj"
  next_addr :: addr
  next_ref :: nat
  succeeds :: "engine_call \<Rightarrow> bool"
  calls :: "engine_call list"
  stderr :: "string list"
  coll_db :: "nat \<Rightarrow> nat option"
  docs :: "nat \<Rightarrow> string \<rightharpoonup> fldict"
  txns :: "nat \<Rightarrow> (nat \<Rightarrow> string \<rightharpoonup> fldict) list"
  mdocs :: "nat \<rightharpoonup> string \<times> nat"
  idocs :: "nat \<rightharpoonup> fldict"
  fl :: "nat \<rightharpoonup> mcontainer"

text \<open>
  Dereferencing a pointer to an object that is not live (freed, or never allocated) is
  undefined behaviour in C; the model returns \<open>Inl DanglingPointer\<close> there, and
  \<open>Inl NullDereference\<close> where a null pointer is dereferenced.
\<close>

datatype fault = DanglingPointer | NullDereference

text \<open>
  \<^verbatim>\<open>calloc\<close> takes the next address; the wrapper never tests its result, and allocation
  failure is not modelled. \<^verbatim>\<open>fprintf(stderr, ...)\<close> appends the message, without the
  engine's error codes.
\<close>

definition calloc :: "obj \<Rightarrow> world \<Rightarrow> addr \<times> world" where
  "calloc ob w =
     (next_addr w, w\<lparr>heap := (heap w)(next_addr w \<mapsto> ob), next_addr := Suc (next_addr w)\<rparr>)"

definition free :: "addr \<Rightarrow> world \<Rightarrow> world" where
  "free p w = w\<lparr>heap := (heap w)(p := None)\<rparr>"

definition fprintf_stderr :: "string \<Rightarrow> world \<Rightarrow> world" where
  "fprintf_stderr msg w = w\<lparr>stderr := stderr w @ [msg]\<rparr>"

definition called :: "engine_call \<Rightarrow> world \<Rightarrow> world" where
  "called c w = w\<lparr>calls := calls w @ [c]\<rparr>"

text \<open>
  Modelled from the spec: the engine's database primitives (\<^verbatim>\<open>CBLDatabase.h\<close>,
  \<^verbatim>\<open>CBLCollection.h\<close>, missing from the repository), "open/close a database by name +
  directory; resolve a default collection", "begin/end a transaction scoped to a
  database". A successful open or collection lookup yields a new object. A transaction
  keeps the content the database's collections had when it began; ending it with
  \<open>commit = False\<close> puts that content back, ending it with \<open>commit = True\<close> keeps the
  writes made since. Reference counts are not modelled: the release calls are recorded
  and change nothing else.
\<close>

definition CBLDatabase_Open ::
  "FLString \<Rightarrow> FLString \<Rightarrow> world \<Rightarrow> nat option \<times> world" where
  "CBLDatabase_Open name directory w =
     (let c = E_Database_Open (buf name) (buf directory); w1 = called c w in
      if succeeds w c then (Some (next_ref w), w1\<lparr>next_ref := Suc (next_ref w)\<rparr>)
      else (None, w1))"

definition CBLDatabase_DefaultCollection :: "nat option \<Rightarrow> world \<Rightarrow> nat option \<times> world" where
  "CBLDatabase_DefaultCollection d w =
     (let c = E_Database_DefaultCollection d; w1 = called c w in
      if succeeds w c \<and> d \<noteq> None
      then (Some (next_ref w),
            w1\<lparr>next_ref := Suc (next_ref w), coll_db := (coll_db w)(next_ref w := d)\<rparr>)
      else (None, w1))"

definition CBLDatabase_Close :: "nat option \<Rightarrow> world \<Rightarrow> world" where
  "CBLDatabase_Close d w = called (E_Database_Close d) w"

definition CBLDatabase_Release :: "nat option \<Rightarrow> world \<Rightarrow> world" where
  "CBLDatabase_Release d w = called (E_Database_Release d) w"

definition CBLCollection_Release :: "nat option \<Rightarrow> world \<Rightarrow> world" where
  "CBLCollection_Release c w = called (E_Collection_Release c) w"

definition CBLDatabase_BeginTransaction :: "nat option \<Rightarrow> world \<Rightarrow> bool \<times> world" where
  "CBLDatabase_BeginTransaction d w =
     (let c = E_Database_BeginTransaction d; w1 = called c w in
      case d of
        None \<Rightarrow> (False, w1)
      | Some dn \<Rightarrow>
          if succeeds w c then (True, w1\<lparr>txns := (txns w)(dn := docs w # txns w dn)\<rparr>)
          else (False, w1))"

definition CBLDatabase_EndTransaction :: "nat option \<Rightarrow> bool \<Rightarrow> world \<Rightarrow> bool \<times> world" where
  "CBLDatabase_EndTransaction d commit w =
     (let c = E_Database_EndTransaction d commit; w1 = called c w in
      case d of
        None \<Rightarrow> (False, w1)
      | Some dn \<Rightarrow>
          (case txns w dn of
             [] \<Rightarrow> (False, w1)
           | before # outer \<Rightarrow>
               if succeeds w c
               then (True,
                     w1\<lparr>txns := (txns w)(dn := outer),
                        docs := (if commit then docs w
                                 else (\<lambda>cl. if coll_db w cl = Some dn then before cl
                                            else docs w cl))\<rparr>)
               else (False, w1)))"

section \<open>Database handles\<close>

text \<open>
  \<^verbatim>\<open>bool cblu_open(const char* db_name, const char* dir, CBLU_Db** out_db)\<close>. The out
  parameter is \<open>None\<close> when \<^verbatim>\<open>out_db\<close> is null and \<open>Some p\<close> when it points to a
  location holding the pointer \<open>p\<close>. The result is the C result, the location as the call
  leaves it, and the state.
\<close>

definition cblu_open ::
  "string option \<Rightarrow> string option \<Rightarrow> addr option option \<Rightarrow> world
     \<Rightarrow> bool \<times> addr option option \<times> world" where
  "cblu_open db_name dir out_db w =
     (if out_db = None \<or> db_name = None then (False, out_db, w)
      else
        let out0 = Some None;
            cfg_directory = fl_from_c dir;
            (d, w1) = CBLDatabase_Open (fl_from_c db_name) cfg_directory w
        in if d = None then (False, out0, fprintf_stderr ''CBL open failed'' w1)
           else
             let (c, w2) = CBLDatabase_DefaultCollection d w1
             in if c = None then
                  let w3 = fprintf_stderr ''CBL default collection failed'' w2;
                      w4 = CBLDatabase_Close d w3;
                      w5 = CBLDatabase_Release d w4
                  in (False, out0, w5)
                else
                  let (h, w3) = calloc (DbObj \<lparr>db_core = \<lparr>core_db = None, core_coll = None\<rparr>\<rparr>) w2;
                      w4 = w3\<lparr>heap := (heap w3)(h \<mapsto> DbObj \<lparr>db_core = \<lparr>core_db = d, core_coll = c\<rparr>\<rparr>)\<rparr>
                  in (True, Some (Some h), w4))"

text \<open>
  \<^verbatim>\<open>void cblu_close(CBLU_Db* db)\<close>. The fields are cleared in the object before it is
  freed.
\<close>

definition cblu_close :: "addr option \<Rightarrow> world \<Rightarrow> fault + world" where
  "cblu_close p w =
     (case p of
        None \<Rightarrow> Inr w
      | Some a \<Rightarrow>
          (case heap w a of
             Some (DbObj h) \<Rightarrow>
               let cr = db_core h;
                   (cr1, w1) =
                     (if core_coll cr \<noteq> None
                      then (cr\<lparr>core_coll := None\<rparr>, CBLCollection_Release (core_coll cr) w)
                      else (cr, w));
                   (cr2, w2) =
                     (if core_db cr1 \<noteq> None
                      then (cr1\<lparr>core_db := None\<rparr>,
                            CBLDatabase_Release (core_db cr1) (CBLDatabase_Close (core_db cr1) w1))
                      else (cr1, w1));
                   w3 = w2\<lparr>heap := (heap w2)(a \<mapsto> DbObj \<lparr>db_core = cr2\<rparr>)\<rparr>
               in Inr (free a w3)
           | _ \<Rightarrow> Inl DanglingPointer))"

section \<open>Sessions\<close>

text \<open>
  \<^verbatim>\<open>CBLU_Session* cblu_session_begin_txn(CBLU_Db* db, bool use_txn)\<close>: the result is the
  session pointer, null on failure.
\<close>

definition cblu_session_begin_txn ::
  "addr option \<Rightarrow> bool \<Rightarrow> world \<Rightarrow> fault + addr option \<times> world" where
  "cblu_session_begin_txn p use_txn w =
     (case p of
        None \<Rightarrow> Inr (None, w)
      | Some a \<Rightarrow>
          let (s, w1) = calloc (SessionObj \<lparr>sess_core = \<lparr>core_db = None, core_coll = None\<rparr>,
                                            txn_active = False\<rparr>) w
          in (case heap w1 a of
                Some (DbObj h) \<Rightarrow>
                  let ses = \<lparr>sess_core = db_core h, txn_active = False\<rparr>;
                      w2 = w1\<lparr>heap := (heap w1)(s \<mapsto> SessionObj ses)\<rparr>
                  in if use_txn then
                       let (ok, w3) = CBLDatabase_BeginTransaction (core_db (sess_core ses)) w2
                       in if \<not> ok
                          then Inr (None, free s (fprintf_stderr ''CBL begin txn failed'' w3))
                          else Inr (Some s,
                                 w3\<lparr>heap := (heap w3)(s \<mapsto> SessionObj (ses\<lparr>txn_active := True\<rparr>))\<rparr>)
                     else Inr (Some s, w2)
              | _ \<Rightarrow> Inl DanglingPointer))"


text \<open>
  \<^verbatim>\<open>void cblu_session_end_txn(CBLU_Session* s, bool commit)\<close>: a \<^verbatim>\<open>void\<close> function, so
  its result is \<open>()\<close>.
\<close>

definition cblu_session_end_txn :: "addr option \<Rightarrow> bool \<Rightarrow> world \<Rightarrow> fault + unit \<times> world" where
  "cblu_session_end_txn p commit w =
     (case p of
        None \<Rightarrow> Inr ((), w)
      | Some a \<Rightarrow>
          (case heap w a of
             Some (SessionObj ses) \<Rightarrow>
               let w3 =
                     (if txn_active ses then
                        let (ok, w1) = CBLDatabase_EndTransaction (core_db (sess_core ses)) commit w;
                            w2 = (if \<not> ok then fprintf_stderr ''CBL end txn failed'' w1 else w1)
                        in w2\<lparr>heap := (heap w2)(a \<mapsto> SessionObj (ses\<lparr>txn_active := False\<rparr>))\<rparr>
                      else w)
               in Inr ((), free a w3)
           | _ \<Rightarrow> Inl DanglingPointer))"

definition cblu_session_end :: "addr option \<Rightarrow> world \<Rightarrow> fault + unit \<times> world" where
  "cblu_session_end p w = cblu_session_end_txn p True w"

section \<open>The engine's documents and mutable containers\<close>

text \<open>
  Modelled from the spec: the engine's mutable containers (\<^verbatim>\<open>Fleece.h\<close>, missing from the
  repository), "a property container abstraction supporting set/get typed scalar, nested
  dictionary, nested array, and binary blob values". A mutable container is an object
  of the engine, named by a number and held in the store \<open>fl\<close>; setting a key replaces
  the value under it, appending adds at the end, and a container stored in another is
  stored by reference. A null container is a null dereference, a reference to no
  container of the right kind a dangling pointer. Reference counts are not modelled:
  the release calls change nothing, and a container is never freed.
\<close>

definition fl_dict_set :: "nat option \<Rightarrow> FLString \<Rightarrow> mvalue \<Rightarrow> world \<Rightarrow> fault + world" where
  "fl_dict_set dict key v w =
     (case dict of
        None \<Rightarrow> Inl NullDereference
      | Some r \<Rightarrow>
          (case fl w r of
             Some (MDict kvs) \<Rightarrow>
               (case buf key of
                  None \<Rightarrow> Inr w
                | Some k \<Rightarrow> Inr (w\<lparr>fl := (fl w)(r \<mapsto> MDict (AList.update k v kvs))\<rparr>))
           | _ \<Rightarrow> Inl DanglingPointer))"


definition FLMutableDict_SetInt :: "nat option \<Rightarrow> FLString \<Rightarrow> i64 \<Rightarrow> world \<Rightarrow> fault + world" where
  "FLMutableDict_SetInt dict key v = fl_dict_set dict key (Imm (FLIntV v))"




















text \<open>
  Modelled from the spec: the engine's documents (\<^verbatim>\<open>CBLDocument.h\<close>, \<^verbatim>\<open>CBLCollection.h\<close>,
  missing from the repository), "create a new mutable document keyed by an identifier;
  fetch an existing document (immutable) by identifier; save a mutable document into a
  collection (replace-by-id semantics); release document handles". A new document has an
  empty root dictionary. Saving encodes the document's property tree as it is at that
  moment and stores the encoding under the document's identifier; fetching yields a new
  immutable document holding the encoding stored. The encoding follows references from
  the root for as many levels as the engine has objects, which is every level of a tree.
\<close>

fun freeze :: "nat \<Rightarrow> (nat \<rightharpoonup> mcontainer) \<Rightarrow> mvalue \<Rightarrow> flvalue" where
  "freeze n st (Imm x) = x"
| "freeze 0 st (Ref r) = FLNullV"
| "freeze (Suc n) st (Ref r) =
     (case st r of
        None \<Rightarrow> FLNullV
      | Some (MArray xs) \<Rightarrow> FLArrayV (map (freeze n st) xs)
      | Some (MDict kvs) \<Rightarrow> FLDictV (map (\<lambda>kv. (fst kv, freeze n st (snd kv))) kvs))"

definition encode_props :: "world \<Rightarrow> nat \<Rightarrow> fldict option" where
  "encode_props w r =
     (case fl w r of
        Some (MDict kvs) \<Rightarrow> Some (map (\<lambda>kv. (fst kv, freeze (next_ref w) (fl w) (snd kv))) kvs)
      | _ \<Rightarrow> None)"

definition CBLDocument_CreateWithID :: "FLString \<Rightarrow> world \<Rightarrow> nat option \<times> world" where
  "CBLDocument_CreateWithID docID w =
     (let d = next_ref w; r = Suc d in
      (Some d,
       w\<lparr>next_ref := Suc r,
          mdocs := (mdocs w)(d \<mapsto> (case buf docID of None \<Rightarrow> [] | Some s \<Rightarrow> s, r)),
          fl := (fl w)(r \<mapsto> MDict [])\<rparr>))"

definition CBLDocument_MutableProperties :: "nat option \<Rightarrow> world \<Rightarrow> nat option" where
  "CBLDocument_MutableProperties doc w =
     (case doc of None \<Rightarrow> None | Some d \<Rightarrow> map_option snd (mdocs w d))"

definition CBLCollection_SaveDocument :: "nat option \<Rightarrow> nat option \<Rightarrow> world \<Rightarrow> bool \<times> world" where
  "CBLCollection_SaveDocument cl doc w =
     (let c = E_Collection_SaveDocument cl doc; w1 = called c w in
      case cl of
        None \<Rightarrow> (False, w1)
      | Some cn \<Rightarrow>
          (case doc of
             None \<Rightarrow> (False, w1)
           | Some d \<Rightarrow>
               (case mdocs w d of
                  None \<Rightarrow> (False, w1)
                | Some (docid, r) \<Rightarrow>
                    (case encode_props w r of
                       None \<Rightarrow> (False, w1)
                     | Some props \<Rightarrow>
                         if succeeds w c
                         then (True, w1\<lparr>docs := (docs w)(cn := (docs w cn)(docid \<mapsto> props))\<rparr>)
                         else (False, w1)))))"



definition CBLDocument_Release :: "nat option \<Rightarrow> world \<Rightarrow> world" where
  "CBLDocument_Release doc w = called (E_Document_Release doc) w"

section \<open>Writing a document\<close>

definition cblu_docw_begin :: "addr option \<Rightarrow> string option \<Rightarrow> world \<Rightarrow> addr option \<times> world" where
  "cblu_docw_begin s doc_id w =
     (if s = None \<or> doc_id = None then (None, w)
      else
        let (d, w1) = calloc (DocWObj \<lparr>docw_core = None, docw_doc = None, docw_props = None\<rparr>) w;
            (doc, w2) = CBLDocument_CreateWithID (fl_from_c doc_id) w1;
            props = CBLDocument_MutableProperties doc w2;
            w3 = w2\<lparr>heap := (heap w2)(d \<mapsto>
                   DocWObj \<lparr>docw_core = s, docw_doc = doc, docw_props = props\<rparr>)\<rparr>
        in (Some d, w3))"

definition set_key_i64 :: "nat option \<Rightarrow> string option \<Rightarrow> i64 \<Rightarrow> world \<Rightarrow> fault + world" where
  "set_key_i64 props k v = FLMutableDict_SetInt props (fl_from_c k) v"




text \<open>
  The setters dereference the writer only when the writer and the key are both non-null:
  \<^verbatim>\<open>if (d && key) set_key_i64(d->props, key, v);\<close>.
\<close>

definition with_docw ::
  "addr option \<Rightarrow> string option \<Rightarrow> (CBLU_DocW \<Rightarrow> world \<Rightarrow> fault + world) \<Rightarrow> world
     \<Rightarrow> fault + world" where
  "with_docw d key body w =
     (case d of
        None \<Rightarrow> Inr w
      | Some a \<Rightarrow>
          if key = None then Inr w
          else (case heap w a of
                  Some (DocWObj dw) \<Rightarrow> body dw w
                | _ \<Rightarrow> Inl DanglingPointer))"

definition cblu_docw_set_i64 ::
  "addr option \<Rightarrow> string option \<Rightarrow> i64 \<Rightarrow> world \<Rightarrow> fault + world" where
  "cblu_docw_set_i64 d key v = with_docw d key (\<lambda>dw. set_key_i64 (docw_props dw) key v)"












subsection \<open>Nested builders\<close>















subsection \<open>Saving\<close>

text \<open>
  \<^verbatim>\<open>bool cblu_docw_save(CBLU_DocW* d)\<close> reads the collection through \<^verbatim>\<open>d->core\<close>, the
  pointer into the session.
\<close>

definition cblu_docw_save :: "addr option \<Rightarrow> world \<Rightarrow> fault + bool \<times> world" where
  "cblu_docw_save d w =
     (case d of
        None \<Rightarrow> Inr (False, w)
      | Some a \<Rightarrow>
          (case heap w a of
             Some (DocWObj dw) \<Rightarrow>
               (case docw_core dw of
                  None \<Rightarrow> Inl NullDereference
                | Some sa \<Rightarrow>
                    (case heap w sa of
                       Some (SessionObj ses) \<Rightarrow>
                         let (ok, w1) = CBLCollection_SaveDocument
                                          (core_coll (sess_core ses)) (docw_doc dw) w;
                             w2 = (if \<not> ok then fprintf_stderr ''CBL save failed'' w1 else w1);
                             w3 = CBLDocument_Release (docw_doc dw) w2;
                             w4 = w3\<lparr>heap := (heap w3)(a \<mapsto>
                                    DocWObj (dw\<lparr>docw_doc := None, docw_props := None\<rparr>))\<rparr>
                         in Inr (ok, free a w4)
                     | _ \<Rightarrow> Inl DanglingPointer))
           | _ \<Rightarrow> Inl DanglingPointer))"

section \<open>Fetching a document\<close>


section \<open>Programs of writer calls\<close>















section \<open>The document a program of writer calls describes\<close>







record built =
  doc_fields :: "string \<rightharpoonup> flvalue"
  attached :: "nat \<rightharpoonup> string"
  builders :: nat






section \<open>Vocabulary of the properties\<close>

text \<open>What a reader holds under a key: nothing, or a value.\<close>

definition stored :: "CBLU_DocR \<Rightarrow> string \<Rightarrow> flvalue option" where
  "stored dr k = (case docr_props dr of None \<Rightarrow> None | Some kvs \<Rightarrow> map_of kvs k)"

text \<open>The stored values of numeric type, and those of boolean type.\<close>

fun numeric_value :: "flvalue \<Rightarrow> bool" where
  "numeric_value (FLIntV n) = True"
| "numeric_value (FLUIntV n) = True"
| "numeric_value (FLDoubleV x) = True"
| "numeric_value _ = False"

fun boolean_value :: "flvalue \<Rightarrow> bool" where
  "boolean_value (FLBoolV b) = True"
| "boolean_value _ = False"

text \<open>
  What an array getter stores for one element: its numeric value, or zero when the
  element is not a number.
\<close>

definition f64_of_item :: "fl_conv \<Rightarrow> flvalue \<Rightarrow> f64" where
  "f64_of_item cv v = (if numeric_value v then FLValue_AsDouble cv (Some v) else f64_zero)"

definition i64_of_item :: "fl_conv \<Rightarrow> flvalue \<Rightarrow> i64" where
  "i64_of_item cv v = (if numeric_value v then FLValue_AsInt cv (Some v) else 0)"

text \<open>
  A buffer \<open>m\<close> of capacity \<open>cap\<close> after a bounded string copy: the first
  \<open>min (length s) (cap - 1)\<close> bytes of \<open>s\<close>, a terminator right after them, and the
  old content everywhere else.
\<close>

definition nul_terminated_prefix :: "string \<Rightarrow> nat \<Rightarrow> char mem \<Rightarrow> char mem" where
  "nul_terminated_prefix s cap m =
     (\<lambda>i. if i < min (length s) (cap - 1) then s ! i
          else if i = min (length s) (cap - 1) then CHR 0x00
          else m i)"

text \<open>
  A stored array whose element count fits the \<^verbatim>\<open>uint32_t\<close> that \<^verbatim>\<open>FLArray_Count\<close>
  returns, as every array of the engine does.
\<close>

fun array_count_representable :: "flvalue option \<Rightarrow> bool" where
  "array_count_representable (Some (FLArrayV vs)) = (length vs < 2 ^ 32)"
| "array_count_representable _ = True"

text \<open>
  The containers the wrapper builds hold immediate values only. Such a container, read
  as an immutable value, is its list of values.
\<close>

fun is_imm :: "mvalue \<Rightarrow> bool" where
  "is_imm (Imm x) = True"
| "is_imm (Ref r) = False"

fun imm_of :: "mvalue \<Rightarrow> flvalue" where
  "imm_of (Imm x) = x"
| "imm_of (Ref r) = FLNullV"

fun leafy :: "mcontainer \<Rightarrow> bool" where
  "leafy (MArray xs) = list_all is_imm xs"
| "leafy (MDict kvs) = list_all (\<lambda>kv. is_imm (snd kv)) kvs"

fun leaf_value :: "mcontainer \<Rightarrow> flvalue" where
  "leaf_value (MArray xs) = FLArrayV (map imm_of xs)"
| "leaf_value (MDict kvs) = FLDictV (map (\<lambda>kv. (fst kv, imm_of (snd kv))) kvs)"

text \<open>
  How the writer's property tree in the store stands to the document the calls so far
  describe. \<open>r0\<close> is the root dictionary, \<open>hs\<close> the handles the \<^verbatim>\<open>begin\<close> calls
  returned, \<open>st\<close> the store and \<open>nx\<close> the next reference. A key of the root holds an
  immediate value, which is the field, or a reference to a container of immediate
  values, whose reading is the field; a builder is attached to a key exactly when the
  root holds its container under that key; handles and the references in the root are
  above the root, below \<open>nx\<close>, and pairwise distinct.
\<close>

definition tree_inv ::
  "nat \<Rightarrow> nat option list \<Rightarrow> (nat \<rightharpoonup> mcontainer) \<Rightarrow> nat \<Rightarrow> built \<Rightarrow> bool" where
  "tree_inv r0 hs st nx b =
     (r0 < nx \<and> builders b = length hs \<and>
      (\<exists>kvs. st r0 = Some (MDict kvs)
        \<and> (\<forall>k. map_of kvs k = None \<longrightarrow> doc_fields b k = None)
        \<and> (\<forall>k v. map_of kvs k = Some (Imm v) \<longrightarrow> doc_fields b k = Some v)
        \<and> (\<forall>k r. map_of kvs k = Some (Ref r) \<longrightarrow>
              r0 < r \<and> r < nx
              \<and> (\<exists>c. st r = Some c \<and> leafy c \<and> doc_fields b k = Some (leaf_value c))
              \<and> (\<forall>j<length hs. hs ! j = Some r \<longrightarrow> attached b j = Some k))
        \<and> (\<forall>j k. attached b j = Some k \<longrightarrow>
              j < length hs \<and> (\<exists>r. hs ! j = Some r \<and> map_of kvs k = Some (Ref r)))
        \<and> (\<forall>j<length hs. \<forall>r. hs ! j = Some r \<longrightarrow>
              r0 < r \<and> r < nx \<and> (\<exists>c. st r = Some c \<and> leafy c))
        \<and> (\<forall>j<length hs. \<forall>j'<length hs. \<forall>r.
              hs ! j = Some r \<and> hs ! j' = Some r \<longrightarrow> j = j')
        \<and> (\<forall>k k' r. map_of kvs k = Some (Ref r) \<and> map_of kvs k' = Some (Ref r)
              \<longrightarrow> k = k')))"







text \<open>
  The allocator's invariant: no object is live at or above the next address.
\<close>

definition allocator_ok :: "world \<Rightarrow> bool" where
  "allocator_ok w = (\<forall>a. next_addr w \<le> a \<longrightarrow> heap w a = None)"

subsection \<open>Concrete inputs\<close>

definition reader0 :: CBLU_DocR where
  "reader0 = \<lparr>docr_core = Some 0, docr_doc = Some 0,
     docr_props = Some [(''n'', FLIntV 7), (''s'', FLStringV ''seven''), (''t'', FLBoolV True)]\<rparr>"

text \<open>
  The document of the spec's scenario, with a blob and a mixed array added. The doubles
  10.5 and 2.25 are the bit patterns \<open>0x4025000000000000\<close> and \<open>0x4002000000000000\<close>.
\<close>

definition order1 :: CBLU_DocR where
  "order1 = \<lparr>docr_core = Some 0, docr_doc = Some 1,
     docr_props = Some
       [(''status'', FLStringV ''pending''),
        (''totals'', FLArrayV [FLDoubleV (F64 0x4025000000000000), FLDoubleV (F64 0x4002000000000000)]),
        (''mixed'', FLArrayV [FLIntV 5, FLStringV ''x'', FLIntV 9]),
        (''photo'', FLBlobV \<lparr>blob_content_type = Some ''image/png'',
                             blob_content = Some [1, 2, 3, 4, 5]\<rparr>)]\<rparr>"

definition buf_x :: "char mem" where
  "buf_x = (\<lambda>i. CHR ''x'')"

definition buf_ff :: "byte mem" where
  "buf_ff = (\<lambda>i. 0xFF)"

definition buf_i64 :: "i64 mem" where
  "buf_i64 = (\<lambda>i. 77)"

definition buf_f64 :: "f64 mem" where
  "buf_f64 = (\<lambda>i. F64 77)"

text \<open>
  An empty state in which every engine call succeeds, the choices of engine calls that
  fail, and the state after opening the database \<^verbatim>\<open>orders\<close>.
\<close>

definition world0 :: world where
  "world0 = \<lparr>heap = Map.empty, next_addr = 0, next_ref = 0, succeeds = (\<lambda>c. True),
     calls = [], stderr = [], coll_db = (\<lambda>c. None), docs = (\<lambda>c. Map.empty),
     txns = (\<lambda>d. []), mdocs = Map.empty, idocs = Map.empty, fl = Map.empty\<rparr>"

definition no_collection :: "engine_call \<Rightarrow> bool" where
  "no_collection c = (case c of E_Database_DefaultCollection d \<Rightarrow> False | _ \<Rightarrow> True)"

definition no_begin :: "engine_call \<Rightarrow> bool" where
  "no_begin c = (case c of E_Database_BeginTransaction d \<Rightarrow> False | _ \<Rightarrow> True)"

definition no_end :: "engine_call \<Rightarrow> bool" where
  "no_end c = (case c of E_Database_EndTransaction d b \<Rightarrow> False | _ \<Rightarrow> True)"

definition opened :: "world \<Rightarrow> world" where
  "opened w = snd (snd (cblu_open (Some ''orders'') (Some ''/data'') (Some None) w))"

text \<open>
  The state after closing that database once; the state after beginning a transactional
  session on it (the session is the object at address 1, the database is engine object
  0 and its default collection engine object 1); the state after a writer on that session
  has set \<^verbatim>\<open>x\<close> to 1 in the document \<^verbatim>\<open>a\<close> and saved it; and the state after ending the
  session when the engine refuses to end the transaction.
\<close>

definition closed_once :: world where
  "closed_once = projr (cblu_close (Some 0) (opened world0))"

definition in_txn :: "world \<Rightarrow> world" where
  "in_txn w = snd (projr (cblu_session_begin_txn (Some 0) True (opened w)))"

definition staged :: "world \<Rightarrow> world" where
  "staged w =
     snd (projr (cblu_docw_save (Some 2)
       (projr (cblu_docw_set_i64 (Some 2) (Some ''x'') 1
          (snd (cblu_docw_begin (Some 1) (Some ''a'') w))))))"

definition ended_fail :: world where
  "ended_fail =
     snd (projr (cblu_session_end_txn (Some 1) True (in_txn (world0\<lparr>succeeds := no_end\<rparr>))))"






section \<open>Properties of the scalar getters\<close>

lemma FLDict_Get_stored:
  "FLDict_Get (docr_props dr) (fl_from_c (Some k)) = stored dr k"
  by (cases "docr_props dr") (simp_all add: stored_def fl_from_c_def)

lemma fl_is_number_iff:
  "fl_is_number v = (case v of None \<Rightarrow> False | Some x \<Rightarrow> numeric_value x)"
  by (cases v; cases "the v") (simp_all add: fl_is_number_def)

lemma GetType_boolean_iff:
  "(FLValue_GetType (Some x) = kFLBoolean) = boolean_value x"
  by (cases x) simp_all

lemma GetType_number_iff:
  "(FLValue_GetType (Some x) = kFLNumber) = numeric_value x"
  by (cases x) simp_all

text \<open>
  C2. With a reader, a key and an output location, each of \<^verbatim>\<open>cblu_docr_get_i64\<close>,
  \<^verbatim>\<open>cblu_docr_get_u64\<close> and \<^verbatim>\<open>cblu_docr_get_f64\<close> returns true and stores the value
  exactly when the key holds a number; \<^verbatim>\<open>cblu_docr_get_bool\<close> does so exactly when it
  holds a boolean or a number, storing its truth value. In every other case (no value
  under the key, or one of another type) the getter returns false and the output
  location keeps what it held.
\<close>

theorem scalar_getters_all_or_nothing:
  "cblu_docr_get_i64 cv (Some dr) (Some k) (Some x) =
     (case stored dr k of
        None \<Rightarrow> (False, Some x)
      | Some v \<Rightarrow> if numeric_value v then (True, Some (FLValue_AsInt cv (Some v)))
                  else (False, Some x))
   \<and> cblu_docr_get_u64 cv (Some dr) (Some k) (Some y) =
     (case stored dr k of
        None \<Rightarrow> (False, Some y)
      | Some v \<Rightarrow> if numeric_value v then (True, Some (FLValue_AsUnsigned cv (Some v)))
                  else (False, Some y))
   \<and> cblu_docr_get_f64 cv (Some dr) (Some k) (Some z) =
     (case stored dr k of
        None \<Rightarrow> (False, Some z)
      | Some v \<Rightarrow> if numeric_value v then (True, Some (FLValue_AsDouble cv (Some v)))
                  else (False, Some z))
   \<and> cblu_docr_get_bool cv (Some dr) (Some k) (Some b) =
     (case stored dr k of
        None \<Rightarrow> (False, Some b)
      | Some v \<Rightarrow> if boolean_value v \<or> numeric_value v
                  then (True, Some (FLValue_AsBool cv (Some v)))
                  else (False, Some b))"
  by (simp add: cblu_docr_get_i64_def cblu_docr_get_u64_def cblu_docr_get_f64_def
      cblu_docr_get_bool_def FLDict_Get_stored fl_is_number_iff GetType_boolean_iff
      GetType_number_iff split: option.splits)

theorem scalar_getters_all_or_nothing_witness:
  "\<forall>cv. cblu_docr_get_i64 cv (Some reader0) (Some ''n'') (Some 99) = (True, Some 7)
      \<and> cblu_docr_get_i64 cv (Some reader0) (Some ''s'') (Some 99) = (False, Some 99)
      \<and> cblu_docr_get_u64 cv (Some reader0) (Some ''missing'') (Some 99) = (False, Some 99)
      \<and> cblu_docr_get_f64 cv (Some reader0) (Some ''t'') (Some (F64 1)) = (False, Some (F64 1))
      \<and> cblu_docr_get_bool cv (Some reader0) (Some ''n'') (Some False) = (True, Some True)
      \<and> cblu_docr_get_bool cv (Some reader0) (Some ''s'') (Some True) = (False, Some True)"
  using scalar_getters_all_or_nothing [of _ reader0]
  by (simp add: stored_def reader0_def)

section \<open>Properties of the string getter\<close>

lemma fl_is_string_iff:
  "fl_is_string v = (buf (FLValue_AsString v) \<noteq> None)"
  by (cases v; cases "the v") (simp_all add: fl_is_string_def)

lemma AsString_size:
  "buf (FLValue_AsString v) = Some s \<Longrightarrow> size_s (FLValue_AsString v) = length s"
  by (cases v; cases "the v") auto

lemma get_str_closed_form:
  assumes "0 < cap"
  shows "cblu_docr_get_str (Some dr) (Some k) (Some m) cap =
           (case buf (FLValue_AsString (stored dr k)) of
              Some s \<Rightarrow> (min (length s) (cap - 1), Some (nul_terminated_prefix s cap m))
            | None \<Rightarrow> (0, Some (nul_terminated_prefix [] cap m)))"
proof (cases "buf (FLValue_AsString (stored dr k))")
  case None
  then show ?thesis using assms
    by (auto simp: cblu_docr_get_str_def FLDict_Get_stored fl_is_string_iff
        nul_terminated_prefix_def fun_eq_iff)
next
  case (Some s)
  then show ?thesis using assms AsString_size [OF Some]
    by (auto simp: cblu_docr_get_str_def FLDict_Get_stored fl_is_string_iff Let_def
        nul_terminated_prefix_def memcpy_def fun_eq_iff min_def)
qed

text \<open>
  C3, as amended. With a reader, a key, a destination and a capacity of at least one,
  \<^verbatim>\<open>cblu_docr_get_str\<close> copies the first \<open>min (length s) (cap - 1)\<close> bytes of the stored
  string \<open>s\<close>, writes a terminator right after them, and returns the number of bytes
  copied; when the key holds no string it writes the empty string and returns 0. In
  both cases the returned count is below the capacity, the byte at the returned count is
  the terminator, and no byte beyond it is touched, so at most \<open>cap\<close> bytes are written.
\<close>

theorem get_str_bounded:
  assumes "0 < cap"
  shows "cblu_docr_get_str (Some dr) (Some k) (Some m) cap =
           (case buf (FLValue_AsString (stored dr k)) of
              Some s \<Rightarrow> (min (length s) (cap - 1), Some (nul_terminated_prefix s cap m))
            | None \<Rightarrow> (0, Some (nul_terminated_prefix [] cap m)))
         \<and> (\<exists>n m'. cblu_docr_get_str (Some dr) (Some k) (Some m) cap = (n, Some m')
               \<and> n < cap \<and> m' n = CHR 0x00 \<and> (\<forall>i. n < i \<longrightarrow> m' i = m i))"
proof (intro conjI)
  show "\<exists>n m'. cblu_docr_get_str (Some dr) (Some k) (Some m) cap = (n, Some m')
             \<and> n < cap \<and> m' n = CHR 0x00 \<and> (\<forall>i. n < i \<longrightarrow> m' i = m i)"
    unfolding get_str_closed_form [OF assms] using assms
    by (cases "buf (FLValue_AsString (stored dr k))")
       (auto simp: nul_terminated_prefix_def)
qed (rule get_str_closed_form [OF assms])

theorem get_str_bounded_witness:
  "(0::nat) < 16 \<and> (0::nat) < 4
   \<and> (\<exists>m'. cblu_docr_get_str (Some order1) (Some ''status'') (Some buf_x) 16 = (7, Some m')
         \<and> map m' [0, 1, 2, 3, 4, 5, 6] = ''pending'' \<and> m' 7 = CHR 0x00 \<and> m' 8 = CHR ''x'')
   \<and> (\<exists>m'. cblu_docr_get_str (Some order1) (Some ''status'') (Some buf_x) 4 = (3, Some m')
         \<and> map m' [0, 1, 2] = ''pen'' \<and> m' 3 = CHR 0x00 \<and> m' 4 = CHR ''x'')
   \<and> (\<exists>m'. cblu_docr_get_str (Some order1) (Some ''totals'') (Some buf_x) 4 = (0, Some m')
         \<and> m' 0 = CHR 0x00 \<and> m' 1 = CHR ''x'')"
  using get_str_bounded [of 16 order1 "''status''" buf_x]
    get_str_bounded [of 4 order1 "''status''" buf_x]
    get_str_bounded [of 4 order1 "''totals''" buf_x]
  by (simp add: stored_def order1_def nul_terminated_prefix_def buf_x_def)

text \<open>
  The claim as the spec words it has the destination terminated on every call. A call
  with a null reader returns before it writes: the four bytes of the destination keep
  their content, none of them a terminator.
\<close>

theorem get_str_null_reader_counterexample:
  "cblu_docr_get_str None (Some ''status'') (Some buf_x) 4 = (0, Some buf_x)
   \<and> buf_x 0 \<noteq> CHR 0x00 \<and> buf_x 1 \<noteq> CHR 0x00 \<and> buf_x 2 \<noteq> CHR 0x00 \<and> buf_x 3 \<noteq> CHR 0x00"
  by (simp add: cblu_docr_get_str_def buf_x_def)

section \<open>Properties of the array getters\<close>

lemma u32_cast: "i < 2 ^ 32 \<Longrightarrow> unat (word_of_nat i :: 32 word) = i"
  by (simp add: unat_of_nat)

lemma f64_array_loop_closed:
  "n \<le> length vs \<Longrightarrow> length vs < 2 ^ 32 \<Longrightarrow>
   f64_array_loop cv (Some vs) out i n =
     (\<lambda>j. if i \<le> j \<and> j < n then f64_of_item cv (vs ! j) else out j)"
proof (induction cv "Some vs" out i n rule: f64_array_loop.induct)
  case (1 cv out i n)
  show ?case
  proof (cases "i < n")
    case True
    then have il: "i < length vs" and i32: "i < 2 ^ 32"
      using "1.prems" by simp_all
    have item: "FLArray_Get (Some vs) (word_of_nat i) = Some (vs ! i)"
      using il i32 by (simp add: u32_cast)
    have cell: "(if fl_is_number (FLArray_Get (Some vs) (word_of_nat i))
                 then FLValue_AsDouble cv (FLArray_Get (Some vs) (word_of_nat i))
                 else f64_zero) = f64_of_item cv (vs ! i)"
      unfolding item by (simp add: fl_is_number_iff f64_of_item_def)
    have step: "f64_array_loop cv (Some vs) out i n =
        f64_array_loop cv (Some vs) (out(i := f64_of_item cv (vs ! i))) (Suc i) n"
      using True by (subst f64_array_loop.simps) (simp only: Let_def cell if_True)
    have ih: "f64_array_loop cv (Some vs) (out(i := f64_of_item cv (vs ! i))) (Suc i) n =
        (\<lambda>j. if Suc i \<le> j \<and> j < n then f64_of_item cv (vs ! j)
             else (out(i := f64_of_item cv (vs ! i))) j)"
      using "1.hyps" [OF True refl "1.prems"] by (simp only: cell)
    show ?thesis
      unfolding step ih using True by (auto simp: fun_eq_iff)
  next
    case False
    then show ?thesis
      by (subst f64_array_loop.simps) (auto simp: fun_eq_iff)
  qed
qed

lemma i64_array_loop_closed:
  "n \<le> length vs \<Longrightarrow> length vs < 2 ^ 32 \<Longrightarrow>
   i64_array_loop cv (Some vs) out i n =
     (\<lambda>j. if i \<le> j \<and> j < n then i64_of_item cv (vs ! j) else out j)"
proof (induction cv "Some vs" out i n rule: i64_array_loop.induct)
  case (1 cv out i n)
  show ?case
  proof (cases "i < n")
    case True
    then have il: "i < length vs" and i32: "i < 2 ^ 32"
      using "1.prems" by simp_all
    have item: "FLArray_Get (Some vs) (word_of_nat i) = Some (vs ! i)"
      using il i32 by (simp add: u32_cast)
    have cell: "(if fl_is_number (FLArray_Get (Some vs) (word_of_nat i))
                 then FLValue_AsInt cv (FLArray_Get (Some vs) (word_of_nat i))
                 else 0) = i64_of_item cv (vs ! i)"
      unfolding item by (simp add: fl_is_number_iff i64_of_item_def)
    have step: "i64_array_loop cv (Some vs) out i n =
        i64_array_loop cv (Some vs) (out(i := i64_of_item cv (vs ! i))) (Suc i) n"
      using True by (subst i64_array_loop.simps) (simp only: Let_def cell if_True)
    have ih: "i64_array_loop cv (Some vs) (out(i := i64_of_item cv (vs ! i))) (Suc i) n =
        (\<lambda>j. if Suc i \<le> j \<and> j < n then i64_of_item cv (vs ! j)
             else (out(i := i64_of_item cv (vs ! i))) j)"
      using "1.hyps" [OF True refl "1.prems"] by (simp only: cell)
    show ?thesis
      unfolding step ih using True by (auto simp: fun_eq_iff)
  next
    case False
    then show ?thesis
      by (subst i64_array_loop.simps) (auto simp: fun_eq_iff)
  qed
qed

lemma GetType_array_iff:
  "(FLValue_GetType v = kFLArray) = (FLValue_AsArray v \<noteq> None)"
  by (cases v; cases "the v") simp_all

lemma representable_AsArray:
  "array_count_representable v \<Longrightarrow> FLValue_AsArray v = Some vs \<Longrightarrow> length vs < 2 ^ 32"
  by (cases v; cases "the v") auto

lemma count_unat:
  "length vs < 2 ^ 32 \<Longrightarrow> unat (FLArray_Count (Some vs)) = length vs"
  by (simp add: unat_of_nat)

lemma array_getters_closed_form:
  assumes "array_count_representable (stored dr k)"
  shows "cblu_docr_get_f64_array cv (Some dr) (Some k) (Some m) maxn =
           (case FLValue_AsArray (stored dr k) of
              None \<Rightarrow> (0, Some m)
            | Some vs \<Rightarrow>
                (min (length vs) maxn,
                 Some (\<lambda>j. if j < min (length vs) maxn then f64_of_item cv (vs ! j) else m j)))
         \<and> cblu_docr_get_i64_array cv (Some dr) (Some k) (Some mi) maxn =
           (case FLValue_AsArray (stored dr k) of
              None \<Rightarrow> (0, Some mi)
            | Some vs \<Rightarrow>
                (min (length vs) maxn,
                 Some (\<lambda>j. if j < min (length vs) maxn then i64_of_item cv (vs ! j) else mi j)))"
proof (cases "FLValue_AsArray (stored dr k)")
  case None
  then show ?thesis
    by (simp add: cblu_docr_get_f64_array_def cblu_docr_get_i64_array_def FLDict_Get_stored
        GetType_array_iff)
next
  case (Some vs)
  have len: "length vs < 2 ^ 32"
    using representable_AsArray [OF assms Some] .
  have cnt: "unat (FLArray_Count (Some vs)) = length vs"
    using len by (rule count_unat)
  show ?thesis
  proof (cases "maxn = 0")
    case True
    then show ?thesis using Some
      by (simp add: cblu_docr_get_f64_array_def cblu_docr_get_i64_array_def)
  next
    case False
    show ?thesis using Some False
      by (auto simp add: cblu_docr_get_f64_array_def cblu_docr_get_i64_array_def
        FLDict_Get_stored GetType_array_iff Let_def cnt f64_array_loop_closed [OF _ len]
        i64_array_loop_closed [OF _ len] fun_eq_iff simp del: FLArray_Count.simps)
  qed
qed

text \<open>
  C4. With a reader, a key and a destination, \<^verbatim>\<open>cblu_docr_get_f64_array\<close> and
  \<^verbatim>\<open>cblu_docr_get_i64_array\<close> return 0 and write nothing when the key holds no array.
  When it holds the array \<open>vs\<close> they return \<open>min (length vs) maxn\<close> and store element
  \<open>j\<close> of \<open>vs\<close> at offset \<open>j\<close> for every \<open>j\<close> below that count, an element that is not
  a number as zero; the destination keeps its content from that count on.
\<close>

theorem array_getters_copy_prefix:
  assumes "array_count_representable (stored dr k)"
  shows "cblu_docr_get_f64_array cv (Some dr) (Some k) (Some m) maxn =
           (case FLValue_AsArray (stored dr k) of
              None \<Rightarrow> (0, Some m)
            | Some vs \<Rightarrow>
                (min (length vs) maxn,
                 Some (\<lambda>j. if j < min (length vs) maxn then f64_of_item cv (vs ! j) else m j)))
         \<and> cblu_docr_get_i64_array cv (Some dr) (Some k) (Some mi) maxn =
           (case FLValue_AsArray (stored dr k) of
              None \<Rightarrow> (0, Some mi)
            | Some vs \<Rightarrow>
                (min (length vs) maxn,
                 Some (\<lambda>j. if j < min (length vs) maxn then i64_of_item cv (vs ! j) else mi j)))"
  using assms by (rule array_getters_closed_form)

theorem array_getters_copy_prefix_witness:
  "\<forall>cv. array_count_representable (stored order1 ''totals'')
     \<and> array_count_representable (stored order1 ''mixed'')
     \<and> array_count_representable (stored order1 ''status'')
     \<and> (\<exists>m'. cblu_docr_get_f64_array cv (Some order1) (Some ''totals'') (Some buf_f64) 4
                 = (2, Some m')
           \<and> m' 0 = F64 0x4025000000000000 \<and> m' 1 = F64 0x4002000000000000
           \<and> m' 2 = F64 77 \<and> m' 3 = F64 77)
     \<and> (\<exists>m'. cblu_docr_get_i64_array cv (Some order1) (Some ''mixed'') (Some buf_i64) 2
                 = (2, Some m')
           \<and> m' 0 = 5 \<and> m' 1 = 0 \<and> m' 2 = 77)
     \<and> (\<exists>m'. cblu_docr_get_i64_array cv (Some order1) (Some ''mixed'') (Some buf_i64) 8
                 = (3, Some m')
           \<and> m' 0 = 5 \<and> m' 1 = 0 \<and> m' 2 = 9 \<and> m' 3 = 77)
     \<and> cblu_docr_get_i64_array cv (Some order1) (Some ''status'') (Some buf_i64) 8
           = (0, Some buf_i64)
     \<and> cblu_docr_get_f64_array cv (Some order1) (Some ''absent'') (Some buf_f64) 8
           = (0, Some buf_f64)"
  using array_getters_copy_prefix [of order1 "''totals''" _ buf_f64 4 buf_i64]
    array_getters_copy_prefix [of order1 "''mixed''" _ buf_f64 2 buf_i64]
    array_getters_copy_prefix [of order1 "''mixed''" _ buf_f64 8 buf_i64]
    array_getters_copy_prefix [of order1 "''status''" _ buf_f64 8 buf_i64]
    array_getters_copy_prefix [of order1 "''absent''" _ buf_f64 8 buf_i64]
  by (simp add: stored_def order1_def f64_of_item_def i64_of_item_def buf_f64_def buf_i64_def)

section \<open>Properties of the blob getter\<close>

lemma GetBlob_iff: "(FLValue_GetBlob v = Some b) = (v = Some (FLBlobV b))"
  by (cases v; cases "the v") auto

lemma get_blob_with_accessor:
  assumes "0 < cap"
  shows "cblu_docr_get_blob (Some FLValue_GetBlob) (Some dr) (Some k) (Some m) cap ctd ctcap =
     (case FLValue_GetBlob (stored dr k) of
        None \<Rightarrow> (0, Some m, ctd)
      | Some b \<Rightarrow>
          (let ct' = (case ctd of
                        None \<Rightarrow> None
                      | Some cm \<Rightarrow>
                          if ctcap = 0 then Some cm
                          else Some (nul_terminated_prefix
                                 (case blob_content_type b of None \<Rightarrow> [] | Some t \<Rightarrow> t) ctcap cm))
           in (case blob_content b of
                 None \<Rightarrow> (0, Some m, ct')
               | Some bs \<Rightarrow>
                   (min (length bs) cap,
                    Some (\<lambda>i. if i < min (length bs) cap then bs ! i else m i),
                    ct'))))"
proof (cases "FLValue_GetBlob (stored dr k)")
  case None
  then show ?thesis using assms
    by (cases "stored dr k") (simp_all add: cblu_docr_get_blob_def FLDict_Get_stored)
next
  case (Some b)
  then have st: "stored dr k = Some (FLBlobV b)"
    by (simp add: GetBlob_iff)
  show ?thesis using assms
    by (auto simp: cblu_docr_get_blob_def FLDict_Get_stored st Let_def CBLBlob_ContentType_def
        CBLBlob_Content_def nul_terminated_prefix_def memcpy_def fun_eq_iff min_def
        split: option.splits)
qed

text \<open>
  With an accessor selected, lines 346 to 358 do what the spec asks of the blob getter:
  the content type goes to the content-type buffer, truncated and terminated, and the
  first \<open>min (length bs) cap\<close> bytes of the content are copied. On the concrete reader,
  three of the five bytes of \<^verbatim>\<open>photo\<close> are copied.
\<close>

lemma get_blob_with_accessor_photo:
  "\<exists>m' c'. cblu_docr_get_blob (Some FLValue_GetBlob) (Some order1) (Some ''photo'')
                 (Some buf_ff) 3 (Some buf_x) 6 = (3, Some m', Some c')
         \<and> m' 0 = 1 \<and> m' 1 = 2 \<and> m' 2 = 3 \<and> m' 3 = 0xFF
         \<and> map c' [0, 1, 2, 3, 4] = ''image'' \<and> c' 5 = CHR 0x00 \<and> c' 6 = CHR ''x''"
  using get_blob_with_accessor [of 3 order1 "''photo''" buf_ff "Some buf_x" 6]
  by (simp add: stored_def order1_def nul_terminated_prefix_def buf_x_def buf_ff_def)

text \<open>
  C5. The claim has \<^verbatim>\<open>cblu_docr_get_blob\<close> copy \<open>min blobSize dstCapacity\<close> content bytes
  of a stored blob and return that count. The accessor is selected by
  \<^verbatim>\<open>#if defined(FLValue_AsBlob)\<close> and \<^verbatim>\<open>#elif defined(FLValue_GetBlob)\<close>; nothing in the
  repository defines either name as a macro, and \<^verbatim>\<open>defined\<close> is false of a function, so
  the branch compiled is \<^verbatim>\<open>#else blob = NULL;\<close> and the lines that copy are never
  reached. On the reader that holds the blob \<^verbatim>\<open>photo\<close> of five bytes, with a destination
  of three bytes, the call returns 0 where the claim has 3, and both buffers keep their
  content.
\<close>

theorem get_blob_reads_no_stored_blob:
  "stored order1 ''photo'' = Some (FLBlobV \<lparr>blob_content_type = Some ''image/png'',
                             blob_content = Some [1, 2, 3, 4, 5]\<rparr>)
   \<and> cblu_docr_get_blob None (Some order1) (Some ''photo'') (Some buf_ff) 3 (Some buf_x) 6
       = (0, Some buf_ff, Some buf_x)
   \<and> min (length [1, 2, 3, 4, 5 :: byte]) 3 = 3"
  by (simp add: cblu_docr_get_blob_def stored_def order1_def Let_def fl_from_c_def)

section \<open>Null arguments\<close>

text \<open>
  C9. Every reader accessor returns false or 0 and leaves every output location as it
  was when the reader is null, when the key is null, when the pointer the result goes to
  (\<^verbatim>\<open>out\<close>, \<^verbatim>\<open>dst\<close>) is null, and when the capacity or count of that destination is
  zero. (The content-type buffer of \<^verbatim>\<open>cblu_docr_get_blob\<close> is optional: the call does
  not depend on it.)
\<close>

theorem null_arguments_write_nothing:
  "cblu_docr_has None key = False \<and> cblu_docr_has d None = False
   \<and> cblu_docr_get_i64 cv None key outi = (False, outi)
   \<and> cblu_docr_get_i64 cv d None outi = (False, outi)
   \<and> cblu_docr_get_i64 cv d key None = (False, None)
   \<and> cblu_docr_get_u64 cv None key outi = (False, outi)
   \<and> cblu_docr_get_u64 cv d None outi = (False, outi)
   \<and> cblu_docr_get_u64 cv d key None = (False, None)
   \<and> cblu_docr_get_f64 cv None key outf = (False, outf)
   \<and> cblu_docr_get_f64 cv d None outf = (False, outf)
   \<and> cblu_docr_get_f64 cv d key None = (False, None)
   \<and> cblu_docr_get_bool cv None key outb = (False, outb)
   \<and> cblu_docr_get_bool cv d None outb = (False, outb)
   \<and> cblu_docr_get_bool cv d key None = (False, None)
   \<and> cblu_docr_get_str None key dst n = (0, dst)
   \<and> cblu_docr_get_str d None dst n = (0, dst)
   \<and> cblu_docr_get_str d key None n = (0, None)
   \<and> cblu_docr_get_str d key dst 0 = (0, dst)
   \<and> cblu_docr_get_f64_array cv None key dstf n = (0, dstf)
   \<and> cblu_docr_get_f64_array cv d None dstf n = (0, dstf)
   \<and> cblu_docr_get_f64_array cv d key None n = (0, None)
   \<and> cblu_docr_get_f64_array cv d key dstf 0 = (0, dstf)
   \<and> cblu_docr_get_i64_array cv None key dsti n = (0, dsti)
   \<and> cblu_docr_get_i64_array cv d None dsti n = (0, dsti)
   \<and> cblu_docr_get_i64_array cv d key None n = (0, None)
   \<and> cblu_docr_get_i64_array cv d key dsti 0 = (0, dsti)
   \<and> cblu_docr_get_blob acc None key dstb n ctd ctn = (0, dstb, ctd)
   \<and> cblu_docr_get_blob acc d None dstb n ctd ctn = (0, dstb, ctd)
   \<and> cblu_docr_get_blob acc d key None n ctd ctn = (0, None, ctd)
   \<and> cblu_docr_get_blob acc d key dstb 0 ctd ctn = (0, dstb, ctd)"
  by (simp add: cblu_docr_has_def cblu_docr_get_i64_def cblu_docr_get_u64_def
      cblu_docr_get_f64_def cblu_docr_get_bool_def cblu_docr_get_str_def
      cblu_docr_get_f64_array_def cblu_docr_get_i64_array_def cblu_docr_get_blob_def
      split: option.splits)

theorem null_arguments_write_nothing_witness:
  "\<forall>cv. cblu_docr_has (Some order1) None = False
     \<and> cblu_docr_get_i64 cv None (Some ''n'') (Some 99) = (False, Some 99)
     \<and> cblu_docr_get_str (Some order1) (Some ''status'') (Some buf_x) 0 = (0, Some buf_x)
     \<and> cblu_docr_get_f64_array cv (Some order1) (Some ''totals'') None 4 = (0, None)
     \<and> cblu_docr_get_blob (Some FLValue_GetBlob) (Some order1) None (Some buf_ff) 3
          (Some buf_x) 6 = (0, Some buf_ff, Some buf_x)"
  using null_arguments_write_nothing [of _ "Some order1"]
  by simp

section \<open>Properties of the handle lifecycle\<close>

lemma allocator_ok_world0: "allocator_ok world0"
  by (simp add: allocator_ok_def world0_def)

lemmas engine_defs =
  CBLDatabase_Open_def CBLDatabase_DefaultCollection_def CBLDatabase_Close_def
  CBLDatabase_Release_def CBLCollection_Release_def CBLDatabase_BeginTransaction_def
  CBLDatabase_EndTransaction_def called_def fprintf_stderr_def calloc_def free_def

text \<open>
  C7. \<^verbatim>\<open>cblu_open\<close> succeeds exactly when the engine opens the database and finds its
  default collection. When it succeeds the handle it stores is a new object holding both
  references. When it fails it stores a null pointer, the heap is as it was, and the
  engine has been asked for nothing beyond the open, or, when the collection was
  missing, for the open, the collection, and then the close and the release of the
  database just opened. \<^verbatim>\<open>cblu_session_begin_txn\<close> with a transaction asks the engine to
  begin one; when that fails it returns a null pointer and the heap and the engine's
  transactions are as they were, and when it succeeds the session is a new object with
  its transaction active.
\<close>

theorem acquisition_all_or_nothing:
  assumes "allocator_ok w"
  shows "(case cblu_open (Some n) dir (Some p) w of (ok, out', w') \<Rightarrow>
            ok = (succeeds w (E_Database_Open (Some n) dir)
                  \<and> succeeds w (E_Database_DefaultCollection (Some (next_ref w))))
            \<and> (if ok then
                 out' = Some (Some (next_addr w)) \<and> heap w (next_addr w) = None
                 \<and> heap w' = (heap w)(next_addr w \<mapsto>
                      DbObj \<lparr>db_core = \<lparr>core_db = Some (next_ref w),
                                          core_coll = Some (Suc (next_ref w))\<rparr>\<rparr>)
               else
                 out' = Some None \<and> heap w' = heap w
                 \<and> calls w' = calls w @
                     (if succeeds w (E_Database_Open (Some n) dir)
                      then [E_Database_Open (Some n) dir,
                            E_Database_DefaultCollection (Some (next_ref w)),
                            E_Database_Close (Some (next_ref w)),
                            E_Database_Release (Some (next_ref w))]
                      else [E_Database_Open (Some n) dir])))
       \<and> (heap w a = Some (DbObj h) \<longrightarrow>
            (case cblu_session_begin_txn (Some a) True w of
               Inl f \<Rightarrow> False
             | Inr (s, w') \<Rightarrow>
                 calls w' = calls w @ [E_Database_BeginTransaction (core_db (db_core h))]
                 \<and> (case s of
                      None \<Rightarrow> heap w' = heap w \<and> txns w' = txns w
                    | Some sa \<Rightarrow>
                        heap w sa = None
                        \<and> heap w' = (heap w)(sa \<mapsto>
                             SessionObj \<lparr>sess_core = db_core h, txn_active = True\<rparr>)
                        \<and> core_db (db_core h) \<noteq> None
                        \<and> succeeds w (E_Database_BeginTransaction (core_db (db_core h))))))"
proof (intro conjI impI)
  have fresh: "heap w (next_addr w) = None"
    using assms by (simp add: allocator_ok_def)
  show "(case cblu_open (Some n) dir (Some p) w of (ok, out', w') \<Rightarrow>
            ok = (succeeds w (E_Database_Open (Some n) dir)
                  \<and> succeeds w (E_Database_DefaultCollection (Some (next_ref w))))
            \<and> (if ok then
                 out' = Some (Some (next_addr w)) \<and> heap w (next_addr w) = None
                 \<and> heap w' = (heap w)(next_addr w \<mapsto>
                      DbObj \<lparr>db_core = \<lparr>core_db = Some (next_ref w),
                                          core_coll = Some (Suc (next_ref w))\<rparr>\<rparr>)
               else
                 out' = Some None \<and> heap w' = heap w
                 \<and> calls w' = calls w @
                     (if succeeds w (E_Database_Open (Some n) dir)
                      then [E_Database_Open (Some n) dir,
                            E_Database_DefaultCollection (Some (next_ref w)),
                            E_Database_Close (Some (next_ref w)),
                            E_Database_Release (Some (next_ref w))]
                      else [E_Database_Open (Some n) dir])))"
    using fresh
    by (simp add: cblu_open_def engine_defs fl_from_c_def Let_def)
next
  assume h: "heap w a = Some (DbObj h)"
  have fresh: "heap w (next_addr w) = None"
    using assms by (simp add: allocator_ok_def)
  then have ne: "a \<noteq> next_addr w"
    using h by auto
  show "case cblu_session_begin_txn (Some a) True w of
               Inl f \<Rightarrow> False
             | Inr (s, w') \<Rightarrow>
                 calls w' = calls w @ [E_Database_BeginTransaction (core_db (db_core h))]
                 \<and> (case s of
                      None \<Rightarrow> heap w' = heap w \<and> txns w' = txns w
                    | Some sa \<Rightarrow>
                        heap w sa = None
                        \<and> heap w' = (heap w)(sa \<mapsto>
                             SessionObj \<lparr>sess_core = db_core h, txn_active = True\<rparr>)
                        \<and> core_db (db_core h) \<noteq> None
                        \<and> succeeds w (E_Database_BeginTransaction (core_db (db_core h))))"
    using h fresh ne
    by (cases "core_db (db_core h)")
       (auto simp: cblu_session_begin_txn_def engine_defs Let_def fun_eq_iff)
qed

lemma opened_world0_fields:
  "heap (opened (world0\<lparr>succeeds := f\<rparr>)) =
     (if f (E_Database_Open (Some ''orders'') (Some ''/data'')) \<and> f (E_Database_DefaultCollection (Some 0))
      then [0 \<mapsto> DbObj \<lparr>db_core = \<lparr>core_db = Some 0, core_coll = Some 1\<rparr>\<rparr>] else Map.empty)"
  "next_addr (opened (world0\<lparr>succeeds := f\<rparr>)) =
     (if f (E_Database_Open (Some ''orders'') (Some ''/data'')) \<and> f (E_Database_DefaultCollection (Some 0))
      then 1 else 0)"
  "succeeds (opened (world0\<lparr>succeeds := f\<rparr>)) = f"
  by (simp_all add: opened_def cblu_open_def engine_defs fl_from_c_def Let_def world0_def)

theorem acquisition_all_or_nothing_witness:
  "allocator_ok (world0\<lparr>succeeds := no_collection\<rparr>)
   \<and> allocator_ok (opened (world0\<lparr>succeeds := no_begin\<rparr>))
   \<and> heap (opened (world0\<lparr>succeeds := no_begin\<rparr>)) 0
       = Some (DbObj \<lparr>db_core = \<lparr>core_db = Some 0, core_coll = Some 1\<rparr>\<rparr>)
   \<and> fst (cblu_open (Some ''orders'') (Some ''/data'') (Some None)
            (world0\<lparr>succeeds := no_collection\<rparr>)) = False
   \<and> fst (snd (cblu_open (Some ''orders'') (Some ''/data'') (Some None)
            (world0\<lparr>succeeds := no_collection\<rparr>))) = Some None
   \<and> calls (opened (world0\<lparr>succeeds := no_collection\<rparr>))
       = [E_Database_Open (Some ''orders'') (Some ''/data''),
          E_Database_DefaultCollection (Some 0), E_Database_Close (Some 0),
          E_Database_Release (Some 0)]
   \<and> heap (opened (world0\<lparr>succeeds := no_collection\<rparr>)) = Map.empty
   \<and> (\<exists>w'. cblu_session_begin_txn (Some 0) True (opened (world0\<lparr>succeeds := no_begin\<rparr>))
               = Inr (None, w')
          \<and> heap w' = heap (opened (world0\<lparr>succeeds := no_begin\<rparr>)))"
proof -
  let ?wc = "world0\<lparr>succeeds := no_collection\<rparr>"
  let ?wb = "opened (world0\<lparr>succeeds := no_begin\<rparr>)"
  have a1: "allocator_ok ?wc"
    by (simp add: allocator_ok_def world0_def)
  have a2: "allocator_ok ?wb"
    by (simp add: allocator_ok_def opened_world0_fields no_begin_def)
  have h: "heap ?wb 0 = Some (DbObj \<lparr>db_core = \<lparr>core_db = Some 0, core_coll = Some 1\<rparr>\<rparr>)"
    by (simp add: opened_world0_fields no_begin_def)
  have o: "fst (cblu_open (Some ''orders'') (Some ''/data'') (Some None) ?wc) = False
      \<and> fst (snd (cblu_open (Some ''orders'') (Some ''/data'') (Some None) ?wc)) = Some None
      \<and> calls (opened ?wc) = [E_Database_Open (Some ''orders'') (Some ''/data''),
          E_Database_DefaultCollection (Some 0), E_Database_Close (Some 0),
          E_Database_Release (Some 0)]
      \<and> heap (opened ?wc) = Map.empty"
    using acquisition_all_or_nothing [OF a1, of "''orders''" "Some ''/data''" None,
        THEN conjunct1]
    by (simp add: opened_def split_beta no_collection_def world0_def)
  have s: "\<exists>w'. cblu_session_begin_txn (Some 0) True ?wb = Inr (None, w') \<and> heap w' = heap ?wb"
    using acquisition_all_or_nothing [OF a2, of _ _ _ 0, THEN conjunct2, rule_format, OF h]
    by (auto simp: opened_world0_fields no_begin_def split: sum.splits option.splits)
  show ?thesis
    using a1 a2 h o s by blast
qed

lemma opened_world0_more:
  "calls (opened (world0\<lparr>succeeds := f\<rparr>)) =
     (if f (E_Database_Open (Some ''orders'') (Some ''/data''))
      then if f (E_Database_DefaultCollection (Some 0))
           then [E_Database_Open (Some ''orders'') (Some ''/data''),
                 E_Database_DefaultCollection (Some 0)]
           else [E_Database_Open (Some ''orders'') (Some ''/data''),
                 E_Database_DefaultCollection (Some 0), E_Database_Close (Some 0),
                 E_Database_Release (Some 0)]
      else [E_Database_Open (Some ''orders'') (Some ''/data'')])"
  "txns (opened (world0\<lparr>succeeds := f\<rparr>)) = (\<lambda>d. [])"
  "stderr (opened (world0\<lparr>succeeds := f\<rparr>)) =
     (if f (E_Database_Open (Some ''orders'') (Some ''/data''))
      then if f (E_Database_DefaultCollection (Some 0)) then []
           else [''CBL default collection failed'']
      else [''CBL open failed''])"
  by (simp_all add: opened_def cblu_open_def engine_defs fl_from_c_def Let_def world0_def)

lemma world0_succeeds_id: "world0\<lparr>succeeds := (\<lambda>c. True)\<rparr> = world0"
  by (simp add: world0_def)

text \<open>
  C8, as amended. \<^verbatim>\<open>cblu_close\<close> does nothing on a null handle. On a live handle it
  releases the collection, then closes and releases the database (each only when the
  handle holds it), and frees the handle. Opening a database and closing the handle
  obtained leaves the heap as it was before the open.
\<close>

theorem close_releases_collection_first:
  "cblu_close None w = Inr w
   \<and> (heap w a = Some (DbObj h) \<longrightarrow>
        (\<exists>w'. cblu_close (Some a) w = Inr w'
           \<and> calls w' = calls w
                @ (if core_coll (db_core h) \<noteq> None
                   then [E_Collection_Release (core_coll (db_core h))] else [])
                @ (if core_db (db_core h) \<noteq> None
                   then [E_Database_Close (core_db (db_core h)),
                         E_Database_Release (core_db (db_core h))] else [])
           \<and> heap w' = (heap w)(a := None)))
   \<and> (allocator_ok w \<and> cblu_open (Some n) dir (Some p) w = (True, out, w1) \<longrightarrow>
        (\<exists>ha w2. out = Some (Some ha) \<and> cblu_close (Some ha) w1 = Inr w2
           \<and> heap w2 = heap w
           \<and> calls w2 = calls w @
               [E_Database_Open (Some n) dir,
                E_Database_DefaultCollection (Some (next_ref w)),
                E_Collection_Release (Some (Suc (next_ref w))),
                E_Database_Close (Some (next_ref w)),
                E_Database_Release (Some (next_ref w))]))"
proof (intro conjI impI)
  show "cblu_close None w = Inr w"
    by (simp add: cblu_close_def)
next
  assume "heap w a = Some (DbObj h)"
  then show "\<exists>w'. cblu_close (Some a) w = Inr w'
           \<and> calls w' = calls w
                @ (if core_coll (db_core h) \<noteq> None
                   then [E_Collection_Release (core_coll (db_core h))] else [])
                @ (if core_db (db_core h) \<noteq> None
                   then [E_Database_Close (core_db (db_core h)),
                         E_Database_Release (core_db (db_core h))] else [])
           \<and> heap w' = (heap w)(a := None)"
    by (simp add: cblu_close_def engine_defs Let_def)
next
  assume a: "allocator_ok w \<and> cblu_open (Some n) dir (Some p) w = (True, out, w1)"
  then have fresh: "heap w (next_addr w) = None"
    by (simp add: allocator_ok_def)
  from a have o: "cblu_open (Some n) dir (Some p) w = (True, out, w1)"
    by simp
  have out: "out = Some (Some (next_addr w))"
    and hp: "heap w1 = (heap w)(next_addr w \<mapsto>
        DbObj \<lparr>db_core = \<lparr>core_db = Some (next_ref w), core_coll = Some (Suc (next_ref w))\<rparr>\<rparr>)"
    and cl: "calls w1 = calls w @ [E_Database_Open (Some n) dir,
                E_Database_DefaultCollection (Some (next_ref w))]"
    using o
    by (auto simp: cblu_open_def engine_defs fl_from_c_def Let_def split: if_splits)
  have "cblu_close (Some (next_addr w)) w1 = Inr (projr (cblu_close (Some (next_addr w)) w1))
      \<and> heap (projr (cblu_close (Some (next_addr w)) w1)) = heap w
      \<and> calls (projr (cblu_close (Some (next_addr w)) w1)) = calls w @
               [E_Database_Open (Some n) dir,
                E_Database_DefaultCollection (Some (next_ref w)),
                E_Collection_Release (Some (Suc (next_ref w))),
                E_Database_Close (Some (next_ref w)),
                E_Database_Release (Some (next_ref w))]"
    using fresh by (simp add: cblu_close_def engine_defs Let_def hp cl fun_eq_iff)
  then show "\<exists>ha w2. out = Some (Some ha) \<and> cblu_close (Some ha) w1 = Inr w2
           \<and> heap w2 = heap w
           \<and> calls w2 = calls w @
               [E_Database_Open (Some n) dir,
                E_Database_DefaultCollection (Some (next_ref w)),
                E_Collection_Release (Some (Suc (next_ref w))),
                E_Database_Close (Some (next_ref w)),
                E_Database_Release (Some (next_ref w))]"
    using out by blast
qed

text \<open>
  The claim as the spec words it has a second close of the same handle be a no-op. The
  first close frees the handle, so the second dereferences a pointer to an object that
  is no longer live.
\<close>

theorem close_twice_counterexample:
  "cblu_open (Some ''orders'') (Some ''/data'') (Some None) world0
     = (True, Some (Some 0), opened world0)
   \<and> cblu_close (Some 0) (opened world0) = Inr closed_once
   \<and> cblu_close (Some 0) closed_once = Inl DanglingPointer"
  by (simp add: closed_once_def opened_def cblu_close_def cblu_open_def engine_defs
      fl_from_c_def Let_def world0_def)

theorem close_releases_collection_first_witness:
  "cblu_close None world0 = Inr world0
   \<and> allocator_ok world0
   \<and> heap (opened world0) 0 = Some (DbObj \<lparr>db_core = \<lparr>core_db = Some 0, core_coll = Some 1\<rparr>\<rparr>)
   \<and> cblu_open (Some ''orders'') (Some ''/data'') (Some None) world0
        = (True, Some (Some 0), opened world0)
   \<and> (\<exists>w'. cblu_close (Some 0) (opened world0) = Inr w'
          \<and> calls w' = [E_Database_Open (Some ''orders'') (Some ''/data''),
                         E_Database_DefaultCollection (Some 0),
                         E_Collection_Release (Some 1), E_Database_Close (Some 0),
                         E_Database_Release (Some 0)]
          \<and> heap w' = Map.empty)"
proof -
  have o: "cblu_open (Some ''orders'') (Some ''/data'') (Some None) world0
        = (True, Some (Some 0), opened world0)"
    by (simp add: opened_def cblu_open_def engine_defs fl_from_c_def Let_def world0_def)
  have h: "heap (opened world0) 0
        = Some (DbObj \<lparr>db_core = \<lparr>core_db = Some 0, core_coll = Some 1\<rparr>\<rparr>)"
    using opened_world0_fields(1) [of "\<lambda>c. True"] by (simp add: world0_succeeds_id)
  have c: "\<exists>w'. cblu_close (Some 0) (opened world0) = Inr w'
          \<and> calls w' = [E_Database_Open (Some ''orders'') (Some ''/data''),
                         E_Database_DefaultCollection (Some 0),
                         E_Collection_Release (Some 1), E_Database_Close (Some 0),
                         E_Database_Release (Some 0)]
          \<and> heap w' = Map.empty"
    using close_releases_collection_first [of world0 0 _ "''orders''" "Some ''/data''" None
        "Some (Some 0)" "opened world0", THEN conjunct2, THEN conjunct2, rule_format,
        OF conjI [OF allocator_ok_world0 o]]
    by (auto simp add: world0_def)
  show ?thesis
    using close_releases_collection_first [of world0, THEN conjunct1] allocator_ok_world0 h o c
    by blast
qed

lemma in_txn_world0_fields:
  "heap (in_txn (world0\<lparr>succeeds := f\<rparr>)) =
     (if f (E_Database_BeginTransaction (Some 0))
      then [0 \<mapsto> DbObj \<lparr>db_core = \<lparr>core_db = Some 0, core_coll = Some 1\<rparr>\<rparr>,
            1 \<mapsto> SessionObj \<lparr>sess_core = \<lparr>core_db = Some 0, core_coll = Some 1\<rparr>,
                               txn_active = True\<rparr>]
      else [0 \<mapsto> DbObj \<lparr>db_core = \<lparr>core_db = Some 0, core_coll = Some 1\<rparr>\<rparr>])"
  "txns (in_txn (world0\<lparr>succeeds := f\<rparr>)) =
     (if f (E_Database_BeginTransaction (Some 0)) then (\<lambda>d. [])(0 := [\<lambda>c. Map.empty])
      else (\<lambda>d. []))"
  "succeeds (in_txn (world0\<lparr>succeeds := f\<rparr>)) = f"
  "stderr (in_txn (world0\<lparr>succeeds := f\<rparr>)) =
     (if f (E_Database_BeginTransaction (Some 0)) then [] else [''CBL begin txn failed''])"
  "calls (in_txn (world0\<lparr>succeeds := f\<rparr>)) =
     [E_Database_Open (Some ''orders'') (Some ''/data''),
      E_Database_DefaultCollection (Some 0), E_Database_BeginTransaction (Some 0)]"
  "docs (in_txn (world0\<lparr>succeeds := f\<rparr>)) = (\<lambda>c. Map.empty)"
  "coll_db (in_txn (world0\<lparr>succeeds := f\<rparr>)) = (\<lambda>c. None)(1 := Some 0)"
  if "f (E_Database_Open (Some ''orders'') (Some ''/data''))"
    and "f (E_Database_DefaultCollection (Some 0))"
  using that
  by (simp_all add: in_txn_def opened_def cblu_open_def cblu_session_begin_txn_def engine_defs
      fl_from_c_def Let_def world0_def fun_eq_iff)

lemma staged_fields:
  "heap (staged (in_txn world0)) 1
      = Some (SessionObj \<lparr>sess_core = \<lparr>core_db = Some 0, core_coll = Some 1\<rparr>,
                           txn_active = True\<rparr>)"
  "txns (staged (in_txn world0)) = (\<lambda>d. [])(0 := [\<lambda>c. Map.empty])"
  "succeeds (staged (in_txn world0)) = (\<lambda>c. True)"
  "docs (staged (in_txn world0)) 1 ''a'' = Some [(''x'', FLIntV 1)]"
  "calls (staged (in_txn world0)) = [E_Database_Open (Some ''orders'') (Some ''/data''),
      E_Database_DefaultCollection (Some 0), E_Database_BeginTransaction (Some 0),
      E_Collection_SaveDocument (Some 1) (Some 2), E_Document_Release (Some 2)]"
  "stderr (staged (in_txn world0)) = []"
  "coll_db (staged (in_txn world0)) 1 = Some 0"
  using in_txn_world0_fields [of "\<lambda>c. True"]
  by (simp_all add: staged_def world0_succeeds_id cblu_docw_begin_def calloc_def
      CBLDocument_CreateWithID_def CBLDocument_MutableProperties_def fl_from_c_def Let_def
      split_beta cblu_docw_set_i64_def with_docw_def set_key_i64_def FLMutableDict_SetInt_def
      fl_dict_set_def cblu_docw_save_def CBLCollection_SaveDocument_def
      encode_props_def called_def CBLDocument_Release_def free_def in_txn_def opened_def
      cblu_open_def cblu_session_begin_txn_def engine_defs world0_def)

text \<open>
  C6, as amended. \<^verbatim>\<open>cblu_session_end_txn\<close> does nothing on a null session. On a live
  session it asks the engine to end the transaction, once and with the outcome given,
  exactly when the session's transaction is active, and it frees the session whatever
  the engine answers. Where the engine ends the transaction, a commit keeps the content
  written since the transaction began and a rollback puts back the content from before.
  A refusal of the engine is printed to \<^verbatim>\<open>stderr\<close>; the function returns nothing.
\<close>

theorem session_end_txn_once:
  "cblu_session_end_txn None commit w = Inr ((), w)
   \<and> (heap w a = Some (SessionObj ses) \<longrightarrow>
        (\<exists>w'. cblu_session_end_txn (Some a) commit w = Inr ((), w')
           \<and> heap w' = (heap w)(a := None)
           \<and> calls w' = calls w
                @ (if txn_active ses
                   then [E_Database_EndTransaction (core_db (sess_core ses)) commit] else [])
           \<and> stderr w' = stderr w
                @ (if txn_active ses
                      \<and> \<not> fst (CBLDatabase_EndTransaction (core_db (sess_core ses)) commit w)
                   then [''CBL end txn failed''] else [])
           \<and> (txn_active ses \<and> core_db (sess_core ses) = Some d
                \<and> txns w d = before # outer
                \<and> succeeds w (E_Database_EndTransaction (Some d) commit) \<longrightarrow>
                txns w' = (txns w)(d := outer)
                \<and> docs w' = (if commit then docs w
                             else (\<lambda>cl. if coll_db w cl = Some d then before cl
                                        else docs w cl)))))"
  by (auto simp: cblu_session_end_txn_def engine_defs Let_def split: option.splits list.splits)

theorem session_end_txn_once_witness:
  "heap (staged (in_txn world0)) 1
      = Some (SessionObj \<lparr>sess_core = \<lparr>core_db = Some 0, core_coll = Some 1\<rparr>,
                           txn_active = True\<rparr>)
   \<and> txns (staged (in_txn world0)) 0 = [\<lambda>c. Map.empty]
   \<and> succeeds (staged (in_txn world0)) (E_Database_EndTransaction (Some 0) False)
   \<and> docs (staged (in_txn world0)) 1 ''a'' = Some [(''x'', FLIntV 1)]
   \<and> (\<exists>w'. cblu_session_end_txn (Some 1) False (staged (in_txn world0)) = Inr ((), w')
          \<and> heap w' 1 = None
          \<and> calls w' = [E_Database_Open (Some ''orders'') (Some ''/data''),
                E_Database_DefaultCollection (Some 0), E_Database_BeginTransaction (Some 0),
                E_Collection_SaveDocument (Some 1) (Some 2), E_Document_Release (Some 2),
                E_Database_EndTransaction (Some 0) False]
          \<and> stderr w' = []
          \<and> txns w' 0 = []
          \<and> docs w' 1 ''a'' = None)"
proof -
  note f = staged_fields
  have t: "txns (staged (in_txn world0)) 0 = [\<lambda>c. Map.empty]"
    and o: "succeeds (staged (in_txn world0)) (E_Database_EndTransaction (Some 0) False)"
    by (simp_all add: f)
  have e: "fst (CBLDatabase_EndTransaction (Some 0) False (staged (in_txn world0)))"
    by (simp add: engine_defs f)
  have "\<exists>w'. cblu_session_end_txn (Some 1) False (staged (in_txn world0)) = Inr ((), w')
          \<and> heap w' 1 = None
          \<and> calls w' = [E_Database_Open (Some ''orders'') (Some ''/data''),
                E_Database_DefaultCollection (Some 0), E_Database_BeginTransaction (Some 0),
                E_Collection_SaveDocument (Some 1) (Some 2), E_Document_Release (Some 2),
                E_Database_EndTransaction (Some 0) False]
          \<and> stderr w' = []
          \<and> txns w' 0 = []
          \<and> docs w' 1 ''a'' = None"
    using session_end_txn_once [of False "staged (in_txn world0)" 1 _ 0 "\<lambda>c. Map.empty" "[]",
        THEN conjunct2, rule_format, OF f(1)] f t o e
    by auto
  then show ?thesis
    using f(1) f(4) t o by blast
qed

text \<open>
  The claim as the spec words it has the failure of the transaction end surfaced to the
  caller through a return status. The function is \<^verbatim>\<open>void\<close>: when the engine refuses to
  end the transaction the caller gets the same result as when it succeeds, and the
  failure shows on \<^verbatim>\<open>stderr\<close> only.
\<close>

theorem session_end_txn_status_counterexample:
  "\<not> fst (CBLDatabase_EndTransaction (Some 0) True (in_txn (world0\<lparr>succeeds := no_end\<rparr>)))
   \<and> cblu_session_end_txn (Some 1) True (in_txn (world0\<lparr>succeeds := no_end\<rparr>))
       = Inr ((), ended_fail)
   \<and> stderr ended_fail = [''CBL end txn failed'']
   \<and> fst (projr (cblu_session_end_txn (Some 1) True (in_txn (world0\<lparr>succeeds := no_end\<rparr>))))
       = fst (projr (cblu_session_end_txn (Some 1) True (in_txn world0)))"
proof -
  have ok: "no_end (E_Database_Open (Some ''orders'') (Some ''/data''))"
    "no_end (E_Database_DefaultCollection (Some 0))"
    "no_end (E_Database_BeginTransaction (Some 0))"
    "\<not> no_end (E_Database_EndTransaction (Some 0) True)"
    by (simp_all add: no_end_def)
  note fs = in_txn_world0_fields [of no_end, OF ok(1) ok(2)]
  have nf: "\<not> fst (CBLDatabase_EndTransaction (Some 0) True (in_txn (world0\<lparr>succeeds := no_end\<rparr>)))"
    using ok by (simp add: engine_defs fs Let_def)
  have r: "cblu_session_end_txn (Some 1) True (in_txn (world0\<lparr>succeeds := no_end\<rparr>))
       = Inr ((), ended_fail) \<and> stderr ended_fail = [''CBL end txn failed'']"
    using ok by (simp add: ended_fail_def cblu_session_end_txn_def engine_defs fs Let_def)
  show ?thesis
    using nf r by simp
qed

text \<open>
  C10. \<^verbatim>\<open>cblu_session_end\<close> is \<^verbatim>\<open>cblu_session_end_txn\<close> with \<open>commit = True\<close>. On a
  session whose transaction is active, and which the engine agrees to end, it asks the
  engine once to end the transaction with a commit, the content written since the
  transaction began stays, and the session is freed.
\<close>

theorem session_end_commits:
  "cblu_session_end p w = cblu_session_end_txn p True w
   \<and> (heap w a = Some (SessionObj ses) \<and> txn_active ses \<and> core_db (sess_core ses) = Some d
        \<and> txns w d = before # outer \<and> succeeds w (E_Database_EndTransaction (Some d) True)
      \<longrightarrow> (\<exists>w'. cblu_session_end (Some a) w = Inr ((), w')
             \<and> calls w' = calls w @ [E_Database_EndTransaction (Some d) True]
             \<and> docs w' = docs w
             \<and> txns w' = (txns w)(d := outer)
             \<and> heap w' = (heap w)(a := None)))"
  by (auto simp: cblu_session_end_def cblu_session_end_txn_def engine_defs Let_def)

theorem session_end_commits_witness:
  "heap (staged (in_txn world0)) 1
      = Some (SessionObj \<lparr>sess_core = \<lparr>core_db = Some 0, core_coll = Some 1\<rparr>,
                           txn_active = True\<rparr>)
   \<and> txns (staged (in_txn world0)) 0 = [\<lambda>c. Map.empty]
   \<and> succeeds (staged (in_txn world0)) (E_Database_EndTransaction (Some 0) True)
   \<and> (\<exists>w'. cblu_session_end (Some 1) (staged (in_txn world0)) = Inr ((), w')
          \<and> calls w' = [E_Database_Open (Some ''orders'') (Some ''/data''),
                E_Database_DefaultCollection (Some 0), E_Database_BeginTransaction (Some 0),
                E_Collection_SaveDocument (Some 1) (Some 2), E_Document_Release (Some 2),
                E_Database_EndTransaction (Some 0) True]
          \<and> docs w' 1 ''a'' = Some [(''x'', FLIntV 1)]
          \<and> txns w' 0 = []
          \<and> heap w' 1 = None)"
proof -
  note f = staged_fields
  have t: "txns (staged (in_txn world0)) 0 = [\<lambda>c. Map.empty]"
    and o: "succeeds (staged (in_txn world0)) (E_Database_EndTransaction (Some 0) True)"
    by (simp_all add: f)
  have "\<exists>w'. cblu_session_end (Some 1) (staged (in_txn world0)) = Inr ((), w')
          \<and> calls w' = [E_Database_Open (Some ''orders'') (Some ''/data''),
                E_Database_DefaultCollection (Some 0), E_Database_BeginTransaction (Some 0),
                E_Collection_SaveDocument (Some 1) (Some 2), E_Document_Release (Some 2),
                E_Database_EndTransaction (Some 0) True]
          \<and> docs w' 1 ''a'' = Some [(''x'', FLIntV 1)]
          \<and> txns w' 0 = []
          \<and> heap w' 1 = None"
    using session_end_commits [of "Some 1" "staged (in_txn world0)" 1 _ 0 "\<lambda>c. Map.empty" "[]",
        THEN conjunct2, rule_format] f t o
    by auto
  then show ?thesis
    using f(1) t o by blast
qed

section \<open>The writer's tree and the document its calls describe\<close>










lemma leafy_append: "leafy (MArray xs) \<Longrightarrow> leafy (MArray (xs @ [Imm v]))"
  by simp





















lemma tree_inv_calls:
  "tree_inv r0 hs (fl (w\<lparr>calls := cs\<rparr>)) (next_ref (w\<lparr>calls := cs\<rparr>)) b
     = tree_inv r0 hs (fl w) (next_ref w) b"
  by simp















































end
